theory Spec2Isabelle
  imports Complex_Main
begin

section \<open>Values of the tabular engine\<close>

text \<open>
  A cell of a float column is either null or a float. The float is kept with its
  three special values, because \<open>clip\<close> and \<open>fill_nan\<close> treat them apart; the finite
  values are idealised as real numbers.
\<close>

datatype f64 = NaN | NegInf | PosInf | Fin real

type_synonym cell = "f64 option"

text \<open>
  \<open>Expr.clip(lo, hi)\<close> of the engine: a null stays null, a not-a-number stays
  not-a-number (both comparisons with the bounds are false), everything else is
  moved to the nearer bound when it lies outside.
\<close>

fun clip_f64 :: "real \<Rightarrow> real \<Rightarrow> f64 \<Rightarrow> f64" where
  "clip_f64 lo hi NaN = NaN"
| "clip_f64 lo hi NegInf = Fin lo"
| "clip_f64 lo hi PosInf = Fin hi"
| "clip_f64 lo hi (Fin x) = (if x < lo then Fin lo else if x > hi then Fin hi else Fin x)"

definition clip :: "real \<Rightarrow> real \<Rightarrow> cell \<Rightarrow> cell" where
  "clip lo hi c = map_option (clip_f64 lo hi) c"

text \<open>\<open>Expr.fill_nan(None)\<close>: a not-a-number becomes null.\<close>

definition fill_nan_None :: "cell \<Rightarrow> cell" where
  "fill_nan_None c = (case c of Some NaN \<Rightarrow> None | _ \<Rightarrow> c)"

section \<open>fac\_analyse/utils.py\<close>

text \<open>
  \<open>stable_corr(x, y, method) = pl.corr(x, y, method=method).clip(-0.2, 0.2).fill_nan(None)\<close>.
  The correlation itself is computed by the engine; its result is the argument here.
\<close>

definition stable_corr :: "cell \<Rightarrow> cell" where
  "stable_corr corr = fill_nan_None (clip (- 0.2) 0.2 corr)"

section \<open>Columns, frames and expressions of the engine\<close>

text \<open>
  The label pipeline works on float columns whose cells may be null. The arithmetic
  is idealised: a cell is a real number or null (\<open>None\<close>), \<open>log\<close> is \<open>ln\<close> and
  \<open>exp\<close> is \<open>exp\<close> on the reals.
\<close>

type_synonym column = "real option list"

text \<open>The non-null values of a list of cells, in order.\<close>

definition valid :: "'a option list \<Rightarrow> 'a list" where
  "valid xs = List.map_filter (\<lambda>c. c) xs"

text \<open>
  The window of \<open>rolling_sum(window_size = n)\<close> at row \<open>i\<close>: the rows
  \<open>i - n + 1 .. i\<close>, cut off at the start of the column.
\<close>

definition rolling_window :: "nat \<Rightarrow> nat \<Rightarrow> 'a list \<Rightarrow> 'a list" where
  "rolling_window n i xs = drop (Suc i - n) (take (Suc i) xs)"

text \<open>
  \<open>Expr.rolling_sum(n, min_periods = m)\<close>: the sum of the non-null values of the
  window, null when the window holds fewer than \<open>m\<close> non-null values.
\<close>

definition rolling_sum :: "nat \<Rightarrow> nat \<Rightarrow> column \<Rightarrow> column" where
  "rolling_sum n m xs =
     map (\<lambda>i. let vs = valid (rolling_window n i xs)
               in if m \<le> length vs then Some (sum_list vs) else None)
         [0..<length xs]"

text \<open>
  \<open>Expr.shift(k)\<close>: rows move \<open>k\<close> places towards the end (towards the start when
  \<open>k\<close> is negative); the rows left empty are null.
\<close>

definition shift :: "int \<Rightarrow> 'a option list \<Rightarrow> 'a option list" where
  "shift k xs =
     (if 0 \<le> k then take (length xs) (replicate (nat k) None @ xs)
      else drop (nat (- k)) xs @ replicate (min (nat (- k)) (length xs)) None)"

definition fill_null :: "'a \<Rightarrow> 'a option list \<Rightarrow> 'a option list" where
  "fill_null v xs = map (\<lambda>c. case c of None \<Rightarrow> Some v | Some x \<Rightarrow> Some x) xs"

text \<open>An elementwise operation of the engine keeps a null cell null.\<close>

definition lift1 :: "('a \<Rightarrow> 'b) \<Rightarrow> 'a option list \<Rightarrow> 'b option list" where
  "lift1 f xs = map (map_option f) xs"

datatype error =
    ColumnNotFoundError string
  | DuplicateError
  | TypeError string
  | ValueError string
  | IndexError
  | KeyError string
  | AttributeError string
  | ComputeError string
  | RecursionError

text \<open>
  A frame maps column names to columns. An expression is evaluated against a frame
  and fails when it names a column the frame does not have.
\<close>

type_synonym frame = "string \<rightharpoonup> column"
type_synonym expr = "frame \<Rightarrow> error + column"

definition col :: "string \<Rightarrow> expr" where
  "col name fr = (case fr name of None \<Rightarrow> Inl (ColumnNotFoundError name) | Some c \<Rightarrow> Inr c)"

definition apply_expr :: "(column \<Rightarrow> column) \<Rightarrow> expr \<Rightarrow> expr" where
  "apply_expr f e fr = (case e fr of Inl err \<Rightarrow> Inl err | Inr c \<Rightarrow> Inr (f c))"

text \<open>Results are gathered in order; the first failure is the failure of the whole.\<close>

fun collect_results :: "('e + 'a) list \<Rightarrow> 'e + 'a list" where
  "collect_results [] = Inr []"
| "collect_results (r # rs) =
     (case r of
        Inl err \<Rightarrow> Inl err
      | Inr x \<Rightarrow> (case collect_results rs of Inl err \<Rightarrow> Inl err | Inr xs \<Rightarrow> Inr (x # xs)))"

definition eval_exprs :: "(string \<times> expr) list \<Rightarrow> frame \<Rightarrow> error + (string \<times> column) list" where
  "eval_exprs es fr =
     collect_results
       (map (\<lambda>(name, e). case e fr of Inl err \<Rightarrow> Inl err | Inr c \<Rightarrow> Inr (name, c)) es)"

text \<open>
  \<open>with_columns\<close> on one frame: every expression is evaluated against the frame as
  it was, two expressions with one output name are refused, and an added column
  replaces an existing column of the same name.
\<close>

definition with_columns :: "(string \<times> expr) list \<Rightarrow> frame \<Rightarrow> error + frame" where
  "with_columns es fr =
     (if \<not> distinct (map fst es) then Inl DuplicateError
      else case eval_exprs es fr of Inl err \<Rightarrow> Inl err | Inr cs \<Rightarrow> Inr (fr ++ map_of cs))"

section \<open>The collection of frames\<close>

text \<open>
  \<open>DataLoader.with_columns\<close> applies the same expressions to every frame of the
  collection.
\<close>

definition dl_with_columns :: "(string \<times> expr) list \<Rightarrow> frame list \<Rightarrow> error + frame list" where
  "dl_with_columns es dfs = collect_results (map (with_columns es) dfs)"

text \<open>
  Modelled from the spec: the \<open>flag\<close> keyword of \<open>with_columns\<close>, which
  \<open>Analysis.__init__\<close> passes and the loader under \<open>src/\<close> does not declare. The
  step is togglable; when the flag is off the frames are kept as they are.
\<close>

definition dl_with_columns_flag ::
  "bool \<Rightarrow> (string \<times> expr) list \<Rightarrow> frame list \<Rightarrow> error + frame list" where
  "dl_with_columns_flag flag es dfs = (if flag then dl_with_columns es dfs else Inr dfs)"

section \<open>fac\_analyse/analysis.py: label construction\<close>

text \<open>Python's \<open>str(n)\<close> for a natural number: its decimal digits.\<close>

fun str_nat :: "nat \<Rightarrow> string" where
  "str_nat n =
     (if n < 10 then [''0123456789'' ! n]
      else str_nat (n div 10) @ [''0123456789'' ! (n mod 10)])"

declare str_nat.simps [simp del]

text \<open>\<open>f'label_{n}'\<close>\<close>

definition label_name :: "nat \<Rightarrow> string" where
  "label_name n = ''label_'' @ str_nat n"

text \<open>
  The label expression of \<open>Analysis.__init__\<close> for a horizon \<open>n\<close>:
  \<open>((1 + col(base)).log().rolling_sum(n, min_periods=n//2).exp() - 1).shift(-n+1).fill_null(0)\<close>.
\<close>

definition label_col :: "nat \<Rightarrow> column \<Rightarrow> column" where
  "label_col n c =
     fill_null 0 (shift (- int n + 1)
       (lift1 (\<lambda>s. exp s - 1) (rolling_sum n (n div 2) (lift1 (\<lambda>x. ln (1 + x)) c))))"

text \<open>
  The same column as the specification words it: the rolling sum requires at least
  the ceiling of \<open>n / 2\<close> valid observations.
\<close>

definition label_col_spec :: "nat \<Rightarrow> column \<Rightarrow> column" where
  "label_col_spec n c =
     fill_null 0 (shift (- int n + 1)
       (lift1 (\<lambda>s. exp s - 1) (rolling_sum n ((n + 1) div 2) (lift1 (\<lambda>x. ln (1 + x)) c))))"

text \<open>
  The second \<open>with_columns\<close> of \<open>Analysis.__init__\<close>: one label expression for
  every horizon other than 1, and \<open>label_1 = base_label\<close> as a named column.
\<close>

definition label_exprs :: "string \<Rightarrow> nat list \<Rightarrow> (string \<times> expr) list" where
  "label_exprs base_label label_periods =
     [(label_name n, apply_expr (label_col n) (col base_label)). n \<leftarrow> label_periods, n \<noteq> 1]
     @ [(''label_1'', col base_label)]"

text \<open>
  The first \<open>with_columns\<close>: every factor column is replaced by its winsorized
  version. The winsorization itself (\<open>fill_nan(None).fac.winsorize(q=0.025)\<close>) is
  the engine's and is the parameter \<open>wz\<close>.
\<close>

definition winsorize_exprs :: "(column \<Rightarrow> column) \<Rightarrow> string list \<Rightarrow> (string \<times> expr) list" where
  "winsorize_exprs wz facs = [(fac, apply_expr wz (col fac)). fac \<leftarrow> facs]"

definition winsorize_step ::
  "(column \<Rightarrow> column) \<Rightarrow> string list \<Rightarrow> bool \<Rightarrow> frame list \<Rightarrow> error + frame list" where
  "winsorize_step wz facs drop_peak dfs =
     dl_with_columns_flag drop_peak (winsorize_exprs wz facs) dfs"

text \<open>
  The frames that \<open>Analysis.__init__\<close> keeps in \<open>self.dl\<close>. The horizons are the
  caller's list with 1 put in front; \<open>collect\<close> and \<open>lazy\<close> do not change the data.
\<close>

definition Analysis_init_dl ::
  "(column \<Rightarrow> column) \<Rightarrow> string list \<Rightarrow> string \<Rightarrow> nat list \<Rightarrow> bool \<Rightarrow> frame list
     \<Rightarrow> error + frame list" where
  "Analysis_init_dl wz facs base_label label_periods drop_peak dfs =
     (case winsorize_step wz facs drop_peak dfs of
        Inl err \<Rightarrow> Inl err
      | Inr dfs1 \<Rightarrow> dl_with_columns (label_exprs base_label (1 # label_periods)) dfs1)"

section \<open>fac\_analyse/utils.py: quantile bucketing\<close>

text \<open>
  The engine computes in IEEE binary64. A result is the exact value rounded to the
  nearest number with a significand of 53 bits, ties to the even neighbour; overflow
  and subnormal numbers are left out of the model.
\<close>

definition round_half_even :: "real \<Rightarrow> int" where
  "round_half_even x =
     (let f = \<lfloor>x\<rfloor>; d = x - of_int f
      in if d < 1 / 2 then f else if 1 / 2 < d then f + 1 else if even f then f else f + 1)"

definition f64_round :: "real \<Rightarrow> real" where
  "f64_round x =
     (if x = 0 then 0
      else let e = \<lfloor>log 2 \<bar>x\<bar>\<rfloor> - 52
           in of_int (round_half_even (x / 2 powr of_int e)) * 2 powr of_int e)"

text \<open>
\<open>eps = 1e-10\<close>, taken as the exact decimal.
\<close>

definition eps :: real where
  "eps = 1 / 10 ^ 10"

text \<open>
  The bin search of \<open>cut(bins, labels, right=True, add_bounds=False)\<close> for one value:
  the label of the first bin \<open>(b\<^sub>k, b\<^sub>k\<^sub>+\<^sub>1]\<close> that holds the value, if there is one.
\<close>

fun cut_right :: "real list \<Rightarrow> 'a list \<Rightarrow> real \<Rightarrow> 'a option" where
  "cut_right (b0 # b1 # bs) (l # ls) x =
     (if b0 < x \<and> x \<le> b1 then Some l else cut_right (b1 # bs) ls x)"
| "cut_right bs ls x = None"

text \<open>
  \<open>bins = pq.linspace(fac_min - eps, fac_max + eps, group + 1)\<close>. The subtraction and
  the addition are float operations of the engine. \<open>pq.linspace\<close> is a function of
  another package and is the parameter \<open>lin\<close>.
\<close>

definition ts_bins :: "(real \<Rightarrow> real \<Rightarrow> nat \<Rightarrow> real list) \<Rightarrow> real \<Rightarrow> real \<Rightarrow> nat \<Rightarrow> real list" where
  "ts_bins lin fac_min fac_max ngroup =
     lin (f64_round (fac_min - eps)) (f64_round (fac_max + eps)) (ngroup + 1)"

text \<open>
The \<open>labels\<close> of \<open>get_ts_group\<close>, by the number of groups.
\<close>

definition ts_labels :: "(real \<Rightarrow> real \<Rightarrow> nat \<Rightarrow> real list) \<Rightarrow> nat \<Rightarrow> real list" where
  "ts_labels lin ngroup =
     (if ngroup = 20 then [-1, -0.9, -0.8, -0.7, -0.6, -0.5, -0.4, -0.3, -0.2, -0.1,
                          0.1, 0.2, 0.3, 0.4, 0.5, 0.6, 0.7, 0.8, 0.9, 1]
      else if ngroup = 10 then [-1, -0.8, -0.6, -0.4, -0.2, 0.2, 0.4, 0.6, 0.8, 1]
      else lin (-1) 1 ngroup)"

text \<open>
\<open>Expr.clip\<close> on a number.
\<close>

definition clip_real :: "real \<Rightarrow> real \<Rightarrow> real \<Rightarrow> real" where
  "clip_real lo hi x = (if x < lo then lo else if x > hi then hi else x)"

text \<open>
  \<open>cut\<close> on one cell: a null stays null, and a value that no bin holds makes the
  engine raise (\<open>value not in bins\<close>).
\<close>

definition cut_cell :: "real list \<Rightarrow> real list \<Rightarrow> real option \<Rightarrow> error + real option" where
  "cut_cell bins lbls c =
     (case c of
        None \<Rightarrow> Inr None
      | Some x \<Rightarrow> (case cut_right bins lbls x of
                     None \<Rightarrow> Inl (ComputeError ''value not in bins'')
                   | Some l \<Rightarrow> Inr (Some l)))"

text \<open>
  \<open>get_ts_group(fac, group, drop_peak, peak_bound)\<close> on one factor column. The
  engine's \<open>quantile(q, interpolation='nearest')\<close> is the parameter \<open>quantile\<close>; it is
  used only when \<open>drop_peak\<close> is set. The minimum and the maximum are taken over the
  non-null cells; a column without one has no bounds and the engine fails.
\<close>

definition get_ts_group ::
  "(real \<Rightarrow> real list \<Rightarrow> real) \<Rightarrow> (real \<Rightarrow> real \<Rightarrow> nat \<Rightarrow> real list) \<Rightarrow> column \<Rightarrow> nat \<Rightarrow> bool
     \<Rightarrow> real \<Rightarrow> error + column" where
  "get_ts_group quantile lin fac ngroup drop_peak peak_bound =
     (let vs = valid fac in
      if vs = [] then Inl (ComputeError ''no bounds: the column has no value'')
      else
        let fac_max = (if drop_peak then quantile (1 - peak_bound) vs else Max (set vs));
            fac_min = (if drop_peak then quantile peak_bound vs else Min (set vs));
            fac1 = (if drop_peak then lift1 (clip_real fac_min fac_max) fac else fac);
            bins = ts_bins lin fac_min fac_max ngroup;
            lbls = ts_labels lin ngroup
        in collect_results (map (cut_cell bins lbls) fac1))"

text \<open>
  An exact \<open>linspace(a, b, n)\<close>: \<open>n\<close> equally spaced values from \<open>a\<close> to \<open>b\<close>, both
  ends included. It is one function that can stand for the parameter \<open>lin\<close>.
\<close>

definition linspace :: "real \<Rightarrow> real \<Rightarrow> nat \<Rightarrow> real list" where
  "linspace a b n = map (\<lambda>k. a + real k * ((b - a) / real (n - 1))) [0..<n]"

section \<open>fac\_analyse/summary.py\<close>

text \<open>
  The key of a factor lookup: a string, an int, or a value of any other type.
\<close>

datatype key = KStr string | KInt int | KOther

text \<open>
  The Python values that a result store holds or hands out. \<open>'f\<close> is the type of a
  stored frame; a list-valued result is a \<open>PyList\<close> of frames, one per factor.
\<close>

datatype 'f pyval =
    PyNone
  | PyStr string
  | PyList "'f pyval list"
  | Frame 'f
  | FacSummaryObj key
  | Method string

text \<open>
  The aggregations that the derived metrics select: \<open>col(labels).mean()\<close>, \<open>.std()\<close>,
  \<open>.skew()\<close>, \<open>.kurtosis()\<close> and \<open>pl.all()\<close>.
\<close>

datatype agg = Mean | Std | Skew | Kurtosis | All

text \<open>
  What the store asks of the tabular engine and of pandas: \<open>df.select(exprs)\<close> on one
  stored value, \<open>pl.concat(res).with_columns(fac=...).to_pandas().set_index('fac')\<close>,
  the division of two metric tables, \<open>values[fac]\<close> and \<open>values.iloc[:, fac]\<close> on a
  stored table, \<open>v[0]\<close> on a value looked up that way, and \<open>v[:, fac]\<close>. Each may
  fail.
\<close>

record 'f engine =
  eng_select :: "agg \<Rightarrow> string list \<Rightarrow> 'f pyval \<Rightarrow> error + 'f"
  eng_concat :: "string list \<Rightarrow> 'f list \<Rightarrow> error + 'f"
  eng_div :: "'f pyval \<Rightarrow> 'f pyval \<Rightarrow> error + 'f pyval"
  eng_getitem :: "'f \<Rightarrow> string \<Rightarrow> error + 'f pyval"
  eng_iloc :: "'f \<Rightarrow> int \<Rightarrow> error + 'f pyval"
  eng_item0 :: "'f pyval \<Rightarrow> error + 'f pyval"
  eng_slice_col :: "'f pyval \<Rightarrow> int \<Rightarrow> error + 'f pyval"

text \<open>
  A \<open>Summary\<close> object: the two attributes set by \<open>__init__\<close> and the attributes
  assigned later by the analysis (\<open>symbol_ic\<close>, \<open>ts_ic\<close>, \<open>group_rets\<close>, ...).
\<close>

record 'f summary =
  facs :: "string list"
  labels :: "string list"
  attrs :: "string \<rightharpoonup> 'f pyval"

definition Summary_init :: "string list \<Rightarrow> string list \<Rightarrow> 'f summary" where
  "Summary_init fs ls = \<lparr>facs = fs, labels = ls, attrs = Map.empty\<rparr>"

text \<open>
  The names the class \<open>Summary\<close> defines. Attributes inherited from \<open>object\<close> are
  left out.
\<close>

definition Summary_methods :: "string list" where
  "Summary_methods =
     [''__init__'', ''__getitem__'', ''__getattr__'', ''apply'', ''_fac_attr_single'',
      ''fac_attr'', ''concat'']"

text \<open>
  Ordinary attribute lookup: the instance attributes, then the class. \<open>None\<close> means
  the lookup fails and Python calls \<open>__getattr__\<close>.
\<close>

definition getattr_stored :: "'f summary \<Rightarrow> string \<Rightarrow> 'f pyval option" where
  "getattr_stored st name =
     (if name = ''facs'' then Some (PyList (map PyStr (facs st)))
      else if name = ''labels'' then Some (PyList (map PyStr (labels st)))
      else case attrs st name of
             Some v \<Rightarrow> Some v
           | None \<Rightarrow> if name \<in> set Summary_methods then Some (Method name) else None)"

text \<open>
  \<open>self.summary.<name> = v\<close> for the name of a result.
\<close>

definition setattr :: "'f summary \<Rightarrow> string \<Rightarrow> 'f pyval \<Rightarrow> 'f summary" where
  "setattr st name v = st\<lparr>attrs := (attrs st)(name \<mapsto> v)\<rparr>"

text \<open>
  \<open>getattr(self, attr)\<close> for a name that \<open>__getattr__\<close> does not compute from other
  attributes: the stored value, and otherwise the last two branches of \<open>__getattr__\<close>.
  \<open>concat\<close> is called by \<open>__getattr__\<close> with \<open>'ts_ic'\<close> and \<open>'_ic_overall'\<close> only.
\<close>

definition resolve_result :: "'f summary \<Rightarrow> string \<Rightarrow> 'f pyval" where
  "resolve_result st name =
     (case getattr_stored st name of
        Some v \<Rightarrow> v
      | None \<Rightarrow> if name \<in> set (facs st) then FacSummaryObj (KStr name) else PyNone)"

text \<open>
  \<open>concat(attr, exprs)\<close>, with \<open>apply\<close> unfolded: \<open>select\<close> on every element of the
  stored list, then the concatenation. A value that is no list cannot be iterated
  into frames; the failure is recorded as a \<open>TypeError\<close>.
\<close>

definition Summary_concat :: "'f engine \<Rightarrow> 'f summary \<Rightarrow> string \<Rightarrow> agg \<Rightarrow> error + 'f pyval" where
  "Summary_concat eng st attr ex =
     (case resolve_result st attr of
        PyList dfs \<Rightarrow>
          (case collect_results (map (eng_select eng ex (labels st)) dfs) of
             Inl err \<Rightarrow> Inl err
           | Inr res \<Rightarrow> (case eng_concat eng (facs st) res of
                          Inl err \<Rightarrow> Inl err | Inr t \<Rightarrow> Inr (Frame t)))
      | _ \<Rightarrow> Inl (TypeError ''object is not iterable''))"

text \<open>
  \<open>self.ic\<close> and \<open>self.ic_std\<close> as the \<open>ir\<close> branch reads them: ordinary lookup
  first, then the branch of \<open>__getattr__\<close>.
\<close>

definition getattr_metric :: "'f engine \<Rightarrow> 'f summary \<Rightarrow> string \<Rightarrow> agg \<Rightarrow> error + 'f pyval" where
  "getattr_metric eng st name ex =
     (case getattr_stored st name of
        Some v \<Rightarrow> Inr v
      | None \<Rightarrow> Summary_concat eng st ''ts_ic'' ex)"

text \<open>
  \<open>Summary.__getattr__(name)\<close>, branch by branch.
\<close>

definition Summary_getattr :: "'f engine \<Rightarrow> 'f summary \<Rightarrow> string \<Rightarrow> error + 'f pyval" where
  "Summary_getattr eng st name =
     (if name = ''ic'' then Summary_concat eng st ''ts_ic'' Mean
      else if name = ''ic_std'' then Summary_concat eng st ''ts_ic'' Std
      else if name = ''ir'' then
        (case getattr_metric eng st ''ic'' Mean of
           Inl err \<Rightarrow> Inl err
         | Inr a \<Rightarrow> (case getattr_metric eng st ''ic_std'' Std of
                       Inl err \<Rightarrow> Inl err
                     | Inr b \<Rightarrow> eng_div eng a b))
      else if name = ''ic_skew'' then Summary_concat eng st ''ts_ic'' Skew
      else if name = ''ic_kurt'' then Summary_concat eng st ''ts_ic'' Kurtosis
      else if name = ''ic_overall'' then Summary_concat eng st ''_ic_overall'' All
      else if name \<in> set (facs st) then Inr (FacSummaryObj (KStr name))
      else Inr PyNone)"

text \<open>
  Attribute access \<open>summary.<name>\<close>: ordinary lookup, and \<open>__getattr__\<close> when it
  fails.
\<close>

definition Summary_getattribute :: "'f engine \<Rightarrow> 'f summary \<Rightarrow> string \<Rightarrow> error + 'f pyval" where
  "Summary_getattribute eng st name =
     (case getattr_stored st name of
        Some v \<Rightarrow> Inr v
      | None \<Rightarrow> Summary_getattr eng st name)"

text \<open>
  Python list indexing: a negative index counts from the end, an index out of range
  raises \<open>IndexError\<close>.
\<close>

definition py_index :: "'a list \<Rightarrow> int \<Rightarrow> error + 'a" where
  "py_index xs i =
     (if 0 \<le> i \<and> i < int (length xs) then Inr (xs ! nat i)
      else if i < 0 \<and> - int (length xs) \<le> i then Inr (xs ! nat (int (length xs) + i))
      else Inl IndexError)"

text \<open>
  The key as the message of the \<open>ValueError\<close> prints it.
\<close>

definition str_key :: "key \<Rightarrow> string" where
  "str_key k = (case k of KStr s \<Rightarrow> s
                | KInt i \<Rightarrow> (if i < 0 then ''-'' @ str_nat (nat (- i)) else str_nat (nat i))
                | KOther \<Rightarrow> ''?'')"

text \<open>
  \<open>Summary._fac_attr_single(attr, fac)\<close>. The loop over \<open>zip(self.facs, values)\<close>
  stops at the first factor name equal to \<open>fac\<close>, which is what \<open>map_of\<close> on the
  zipped list returns. When \<open>values\<close> is a \<open>FacSummary\<close> object and the key is an
  int, \<open>values.iloc\<close> goes through \<open>FacSummary.__getattr__\<close>, that is through
  \<open>fac_attr('iloc', values.fac)\<close>, and so back into this function; the first argument
  bounds the depth of that recursion, and Python raises \<open>RecursionError\<close> at its
  limit.
\<close>

fun fac_attr_single_rec ::
  "nat \<Rightarrow> 'f engine \<Rightarrow> 'f summary \<Rightarrow> string \<Rightarrow> key \<Rightarrow> error + 'f pyval" where
  "fac_attr_single_rec 0 eng st attr fac = Inl RecursionError"
| "fac_attr_single_rec (Suc depth) eng st attr fac =
     (case Summary_getattribute eng st attr of
        Inl err \<Rightarrow> Inl err
      | Inr values \<Rightarrow>
          (case (case fac of
                   KStr s \<Rightarrow>
                     (case values of
                        PyList vs \<Rightarrow>
                          Inr (case map_of (zip (facs st) vs) s of None \<Rightarrow> PyNone | Some v \<Rightarrow> v)
                      | Frame t \<Rightarrow> eng_getitem eng t s
                      | _ \<Rightarrow> Inl (TypeError ''object is not subscriptable''))
                 | KInt i \<Rightarrow>
                     (case values of
                        PyList vs \<Rightarrow> py_index vs i
                      | Frame t \<Rightarrow> eng_iloc eng t i
                      | FacSummaryObj k \<Rightarrow>
                          (case fac_attr_single_rec depth eng st ''iloc'' k of
                             Inl err \<Rightarrow> Inl err
                           | Inr loc \<Rightarrow> eng_slice_col eng loc i)
                      | _ \<Rightarrow> Inl (AttributeError ''iloc''))
                 | KOther \<Rightarrow> Inl (TypeError ''fac should be str or int''))
           of Inl err \<Rightarrow> Inl err
            | Inr df \<Rightarrow>
                if df = PyNone then Inl (ValueError (''fac: '' @ str_key fac @ '' not in result''))
                else Inr df))"

text \<open>The default of \<open>sys.getrecursionlimit()\<close>.\<close>

definition recursion_limit :: nat where
  "recursion_limit = 1000"

definition fac_attr_single :: "'f engine \<Rightarrow> 'f summary \<Rightarrow> string \<Rightarrow> key \<Rightarrow> error + 'f pyval" where
  "fac_attr_single eng st attr fac = fac_attr_single_rec recursion_limit eng st attr fac"

text \<open>
  \<open>Summary.fac_attr(attr, facs)\<close>: one key, or a list of keys looked up one by one.
\<close>

datatype fac_arg = One key | Many "key list"

definition fac_attr :: "'f engine \<Rightarrow> 'f summary \<Rightarrow> string \<Rightarrow> fac_arg \<Rightarrow> error + 'f pyval" where
  "fac_attr eng st attr fs =
     (case fs of
        One fac \<Rightarrow> fac_attr_single eng st attr fac
      | Many ks \<Rightarrow> (case collect_results (map (fac_attr_single eng st attr) ks) of
                     Inl err \<Rightarrow> Inl err | Inr vs \<Rightarrow> Inr (PyList vs)))"


section \<open>fac\_analyse/analysis.py: the analysis object\<close>

text \<open>
  The fields of an \<open>Analysis\<close> object that the methods below read or write.
\<close>

record 'f analysis =
  an_facs :: "string list"
  an_base_label :: string
  an_label_periods :: "nat list"
  an_labels :: "string list"
  an_dl :: "frame list"
  an_summary :: "'f summary"

definition default_label_periods :: "nat list" where
  "default_label_periods = [10, 30, 60, 120, 240, 480, 720, 1200]"

text \<open>
  \<open>Analysis.__init__\<close>: the label periods default to the class attribute, 1 is put
  in front, the frames get their label columns and a fresh \<open>Summary\<close> is created.
\<close>

definition Analysis_init ::
  "(column \<Rightarrow> column) \<Rightarrow> frame list \<Rightarrow> string list \<Rightarrow> string \<Rightarrow> nat list option \<Rightarrow> bool
     \<Rightarrow> error + 'f analysis" where
  "Analysis_init wz dfs fs base lp drop_peak =
     (let periods = (case lp of None \<Rightarrow> default_label_periods | Some ps \<Rightarrow> ps);
          periods1 = 1 # periods;
          lbls = map label_name periods1
      in case Analysis_init_dl wz fs base periods drop_peak dfs of
           Inl err \<Rightarrow> Inl err
         | Inr dl \<Rightarrow>
             Inr \<lparr>an_facs = fs, an_base_label = base, an_label_periods = periods1,
                  an_labels = lbls, an_dl = dl, an_summary = Summary_init fs lbls\<rparr>)"

text \<open>
  \<open>Analysis.ts_ic(rule, method, keep_symbol_ic)\<close>. The engine's part is given by two
  parameters: \<open>pipeline\<close> is
  \<open>group_by_time(rule, time=daily_col).agg([stable_corr ...]).collect(False).align(on=daily_col)\<close>
  for one factor, \<open>agg_first\<close> is
  \<open>agg_dfs({daily_col: 'first'}).to_pandas().set_index(daily_col)\<close>. An exception leaves
  the object as it was when the exception was raised.
\<close>

definition ts_ic ::
  "(string \<Rightarrow> string \<Rightarrow> frame list \<Rightarrow> string list \<Rightarrow> string \<Rightarrow> error + 'f) \<Rightarrow> ('f \<Rightarrow> error + 'f)
     \<Rightarrow> string \<Rightarrow> string \<Rightarrow> bool \<Rightarrow> 'f analysis \<Rightarrow> (error \<times> 'f analysis) + 'f analysis" where
  "ts_ic pipeline agg_first rule method keep_symbol_ic an =
     (case collect_results (map (pipeline rule method (an_dl an) (an_labels an)) (an_facs an)) of
        Inl err \<Rightarrow> Inl (err, an)
      | Inr symbol_ts_ic \<Rightarrow>
          let s1 = (if keep_symbol_ic
                    then setattr (an_summary an) ''symbol_ts_ic'' (PyList (map Frame symbol_ts_ic))
                    else an_summary an)
          in case collect_results (map agg_first symbol_ts_ic) of
               Inl err \<Rightarrow> Inl (err, an\<lparr>an_summary := s1\<rparr>)
             | Inr ts \<Rightarrow> Inr (an\<lparr>an_summary := setattr s1 ''ts_ic'' (PyList (map Frame ts))\<rparr>))"


text \<open>
  The \<open>facs\<close> argument of \<open>group_ret\<close> and \<open>ts_group_ret\<close>: \<open>None\<close>, one name, or a
  list of names.
\<close>

datatype facs_arg = AllFacs | FacName string | FacNames "string list"

text \<open>
  \<open>Analysis.group_ret(facs, rule, group)\<close>. Both branches of the source have one
  shape: a per-factor pipeline of the engine (\<open>pipeline\<close>, which is given the rule)
  whose results are stored under \<open>symbol_group_rets\<close>, and a cross-symbol
  aggregation of each (\<open>aggregate\<close>) stored under \<open>group_rets\<close>. The lists hold one
  entry for every factor of the \<open>facs\<close> argument.
\<close>

definition group_ret ::
  "(string option \<Rightarrow> frame list \<Rightarrow> nat \<Rightarrow> string \<Rightarrow> error + 'f) \<Rightarrow> (string option \<Rightarrow> 'f \<Rightarrow> error + 'f)
     \<Rightarrow> facs_arg \<Rightarrow> string option \<Rightarrow> nat \<Rightarrow> 'f analysis \<Rightarrow> (error \<times> 'f analysis) + 'f analysis" where
  "group_ret pipeline aggregate fs rule ngroup an =
     (let names = (case fs of AllFacs \<Rightarrow> an_facs an | FacName s \<Rightarrow> [s] | FacNames l \<Rightarrow> l)
      in case collect_results (map (pipeline rule (an_dl an) ngroup) names) of
           Inl err \<Rightarrow> Inl (err, an)
         | Inr group_rets \<Rightarrow>
             let s1 = setattr (an_summary an) ''symbol_group_rets'' (PyList (map Frame group_rets))
             in case collect_results (map (aggregate rule) group_rets) of
                  Inl err \<Rightarrow> Inl (err, an\<lparr>an_summary := s1\<rparr>)
                | Inr rs \<Rightarrow>
                    Inr (an\<lparr>an_summary := setattr s1 ''group_rets'' (PyList (map Frame rs))\<rparr>))"

section \<open>pyloader/python/loader: the Python wrappers\<close>

text \<open>
  The two objects of the compiled module \<open>rs_loader\<close> that the wrappers hold: a
  loader with its frames and symbols, and a pending grouping of a loader. What the
  compiled module computes is not part of the wrappers and is given by parameters
  where a wrapper calls it.
\<close>

datatype rs_object =
    RS_Loader "frame list" "string list option"
  | RS_DataLoaderGroupBy "frame list" "string list option" string

datatype py_class = DataLoader | DataLoaderGroupBy

text \<open>A wrapper object: its class and the one attribute it holds (\<open>dl\<close> or \<open>dlgb\<close>).\<close>

record py_object =
  obj_class :: py_class
  obj_inner :: rs_object

text \<open>The first argument of \<open>DataLoader(typ, symbols)\<close>.\<close>

datatype init_arg =
    FromObject rs_object
  | FromFrame frame
  | FromFrames "frame list"
  | FromPath string

text \<open>\<open>dl.dfs = typ\<close> on an object of the compiled module.\<close>

fun rs_set_dfs :: "rs_object \<Rightarrow> frame list \<Rightarrow> rs_object" where
  "rs_set_dfs (RS_Loader dfs symbols) new = RS_Loader new symbols"
| "rs_set_dfs (RS_DataLoaderGroupBy dfs symbols rule) new = RS_DataLoaderGroupBy new symbols rule"

text \<open>
  \<open>DataLoader.__init__(typ, symbols)\<close>. \<open>is_rs_loader\<close> is
  \<open>isinstance(typ, _RS_Loader)\<close> and \<open>rs_new\<close> is the constructor
  \<open>_RS_Loader(typ, symbols)\<close>, both of the compiled module. Whatever branch is taken,
  the object under construction is a \<open>DataLoader\<close>.
\<close>

definition DataLoader_init ::
  "(rs_object \<Rightarrow> bool) \<Rightarrow> (init_arg \<Rightarrow> string list option \<Rightarrow> error + rs_object) \<Rightarrow> init_arg
     \<Rightarrow> string list option \<Rightarrow> error + py_object" where
  "DataLoader_init is_rs_loader rs_new typ symbols =
     (case typ of
        FromObject ob \<Rightarrow>
          if is_rs_loader ob then Inr \<lparr>obj_class = DataLoader, obj_inner = ob\<rparr>
          else (case rs_new typ symbols of
                  Inl err \<Rightarrow> Inl err
                | Inr dl \<Rightarrow> Inr \<lparr>obj_class = DataLoader, obj_inner = dl\<rparr>)
      | FromFrame f \<Rightarrow>
          (case rs_new (FromPath []) symbols of
             Inl err \<Rightarrow> Inl err
           | Inr dl \<Rightarrow> Inr \<lparr>obj_class = DataLoader, obj_inner = rs_set_dfs dl [f]\<rparr>)
      | FromFrames fs \<Rightarrow>
          (case rs_new (FromPath []) symbols of
             Inl err \<Rightarrow> Inl err
           | Inr dl \<Rightarrow> Inr \<lparr>obj_class = DataLoader, obj_inner = rs_set_dfs dl fs\<rparr>)
      | FromPath path \<Rightarrow>
          (case rs_new typ symbols of
             Inl err \<Rightarrow> Inl err
           | Inr dl \<Rightarrow> Inr \<lparr>obj_class = DataLoader, obj_inner = dl\<rparr>))"

text \<open>\<open>DataLoaderGroupBy.__init__(dlgb)\<close> of \<open>group_by.py\<close>.\<close>

definition DataLoaderGroupBy_init :: "rs_object \<Rightarrow> py_object" where
  "DataLoaderGroupBy_init dlgb = \<lparr>obj_class = DataLoaderGroupBy, obj_inner = dlgb\<rparr>"

text \<open>The keyword arguments of \<open>group_by_time\<close>.\<close>

record group_by_time_args =
  gbt_rule :: string
  gbt_last_time :: "string option"
  gbt_time :: string
  gbt_group_by :: "string list option"
  gbt_daily_col :: string
  gbt_maintain_order :: bool
  gbt_label :: string

text \<open>
  \<open>DataLoader.group_by_time\<close> and \<open>DataLoader.group_by\<close> of \<open>py_loader.py\<close>: the
  result of the compiled module's method is passed to \<open>DataLoader(...)\<close>.
\<close>

definition group_by_time ::
  "(rs_object \<Rightarrow> bool) \<Rightarrow> (init_arg \<Rightarrow> string list option \<Rightarrow> error + rs_object)
     \<Rightarrow> (rs_object \<Rightarrow> group_by_time_args \<Rightarrow> error + rs_object) \<Rightarrow> py_object \<Rightarrow> group_by_time_args
     \<Rightarrow> error + py_object" where
  "group_by_time is_rs_loader rs_new rs_group_by_time self args =
     (case rs_group_by_time (obj_inner self) args of
        Inl err \<Rightarrow> Inl err
      | Inr g \<Rightarrow> DataLoader_init is_rs_loader rs_new (FromObject g) None)"

definition group_by ::
  "(rs_object \<Rightarrow> bool) \<Rightarrow> (init_arg \<Rightarrow> string list option \<Rightarrow> error + rs_object)
     \<Rightarrow> (rs_object \<Rightarrow> string list \<Rightarrow> bool \<Rightarrow> error + rs_object) \<Rightarrow> py_object \<Rightarrow> string list \<Rightarrow> bool
     \<Rightarrow> error + py_object" where
  "group_by is_rs_loader rs_new rs_group_by self by maintain_order =
     (case rs_group_by (obj_inner self) by maintain_order of
        Inl err \<Rightarrow> Inl err
      | Inr g \<Rightarrow> DataLoader_init is_rs_loader rs_new (FromObject g) None)"

text \<open>
  \<open>DataLoaderGroupBy.agg\<close> of \<open>group_by.py\<close>: the aggregation of the compiled module,
  wrapped as a \<open>DataLoader\<close>.
\<close>

definition DataLoaderGroupBy_agg ::
  "(rs_object \<Rightarrow> bool) \<Rightarrow> (init_arg \<Rightarrow> string list option \<Rightarrow> error + rs_object)
     \<Rightarrow> (rs_object \<Rightarrow> string list \<Rightarrow> error + rs_object) \<Rightarrow> py_object \<Rightarrow> string list
     \<Rightarrow> error + py_object" where
  "DataLoaderGroupBy_agg is_rs_loader rs_new rs_agg self aggs =
     (case rs_agg (obj_inner self) aggs of
        Inl err \<Rightarrow> Inl err
      | Inr dl \<Rightarrow> DataLoader_init is_rs_loader rs_new (FromObject dl) None)"

text \<open>
  The names a class defines (methods and properties) and the name of the instance
  attribute its \<open>__init__\<close> sets. Neither class defines \<open>__getattr__\<close>.
\<close>

fun class_members :: "py_class \<Rightarrow> string list" where
  "class_members DataLoader =
     [''__init__'', ''__repr__'', ''dfs'', ''symbols'', ''type'', ''start'', ''end'', ''freq'',
      ''schema'', ''columns'', ''__iter__'', ''__getitem__'', ''__setitem__'', ''__len__'',
      ''len'', ''is_empty'', ''is_eager'', ''is_lazy'', ''find_index'', ''__setattr__'',
      ''with_type'', ''with_symbols'', ''with_start'', ''with_end'', ''with_freq'', ''with_dfs'',
      ''iter_dfs'', ''collect'', ''lazy'', ''select'', ''with_columns'', ''drop'', ''filter'',
      ''align'', ''concat'', ''save'', ''load'', ''apply'', ''join'', ''group_by_time'',
      ''group_by'', ''group_by_dynamic'', ''kline'', ''calc_tick_future_ret'']"
| "class_members DataLoaderGroupBy = [''__init__'', ''dl'', ''last_time'', ''time'', ''agg'']"

fun instance_members :: "py_class \<Rightarrow> string list" where
  "instance_members DataLoader = [''dl'']"
| "instance_members DataLoaderGroupBy = [''dlgb'']"

text \<open>
  Attribute access on a wrapper object: the name that is found, or the
  \<open>AttributeError\<close>.
\<close>

definition py_getattr :: "py_object \<Rightarrow> string \<Rightarrow> error + string" where
  "py_getattr ob name =
     (if name \<in> set (instance_members (obj_class ob)) \<or> name \<in> set (class_members (obj_class ob))
      then Inr name else Inl (AttributeError name))"

section \<open>fac\_analyse/analysis.py: group analysis\<close>

















text \<open>
  The arithmetic of pandas and numpy on values: division by a horizon, subtraction,
  multiplication by an integer constant.
\<close>

record 'v arith =
  fdiv :: "'v \<Rightarrow> nat \<Rightarrow> 'v"
  fsub :: "'v \<Rightarrow> 'v \<Rightarrow> 'v"
  fmul :: "'v \<Rightarrow> nat \<Rightarrow> 'v"



section \<open>fac\_analyse/analysis.py: overall IC\<close>

text \<open>
  The frames of the overall IC: a one-row frame is a list of named cells, the
  per-symbol result of one factor holds one such row per symbol, and the cross-symbol
  aggregate is a single row.
\<close>

type_synonym ic_row = "(string \<times> cell) list"

datatype ic_frame = PerSymbol "ic_row list" | Overall ic_row

text \<open>
  \<open>select([stable_corr(fac, label, method).alias(label) for label in self.labels], count=pl.len())\<close>
  on one frame: one cell per label and the number of rows of the frame. \<open>corr\<close> is the
  engine's \<open>pl.corr\<close> on the frame (it fails on a missing column), \<open>height\<close> its
  \<open>pl.len()\<close>.
\<close>

definition select_ic ::
  "(string \<Rightarrow> string \<Rightarrow> string \<Rightarrow> frame \<Rightarrow> error + cell) \<Rightarrow> (frame \<Rightarrow> nat) \<Rightarrow> string \<Rightarrow> string
     \<Rightarrow> string list \<Rightarrow> frame \<Rightarrow> error + (ic_row \<times> nat)" where
  "select_ic corr height method fac lbls fr =
     (case collect_results
             (map (\<lambda>l. case corr method fac l fr of
                          Inl err \<Rightarrow> Inl err
                        | Inr c \<Rightarrow> Inr (l, stable_corr c)) lbls) of
        Inl err \<Rightarrow> Inl err
      | Inr row \<Rightarrow> Inr (row, height fr))"

text \<open>
The cell of a row under a name; null when the row has no such cell.
\<close>

definition cell_value :: "ic_row \<Rightarrow> string \<Rightarrow> cell" where
  "cell_value row l = (case map_of row l of None \<Rightarrow> None | Some c \<Rightarrow> c)"

text \<open>
A cell that holds a finite number, and that number.
\<close>

fun is_number :: "cell \<Rightarrow> bool" where
  "is_number (Some (Fin x)) = True"
| "is_number c = False"

fun number_of :: "cell \<Rightarrow> real" where
  "number_of (Some (Fin x)) = x"
| "number_of c = 0"

text \<open>
  Modelled from the spec: \<open>DataLoader.agg_dfs(weight='count')\<close>, which \<open>ic_overall\<close>
  calls and which is not under \<open>src/\<close>. It is the count-weighted mean per label over
  the symbols' rows: the sum of count times value, divided by the sum of the counts.
  The spec gives no rule for a null value or for counts that sum to 0; the model
  answers null there.
\<close>

definition weighted_mean :: "(nat \<times> cell) list \<Rightarrow> cell" where
  "weighted_mean wcs =
     (if list_all (\<lambda>(w, c). is_number c) wcs \<and> 0 < sum_list (map fst wcs)
      then Some (Fin ((\<Sum>(w, c)\<leftarrow>wcs. real w * number_of c) / real (sum_list (map fst wcs))))
      else None)"

definition agg_dfs_weighted :: "string list \<Rightarrow> (ic_row \<times> nat) list \<Rightarrow> ic_row" where
  "agg_dfs_weighted lbls ic =
     map (\<lambda>l. (l, weighted_mean (map (\<lambda>(row, cnt). (cnt, cell_value row l)) ic))) lbls"

text \<open>
  \<open>Analysis.ic_overall(method)\<close>: for every factor the per-symbol rows with their
  counts; \<open>symbol_ic\<close> holds them without the count (\<open>ic.drop('count')\<close>), \<open>_ic_overall\<close>
  their aggregate weighted by the count.
\<close>

definition ic_overall ::
  "(string \<Rightarrow> string \<Rightarrow> string \<Rightarrow> frame \<Rightarrow> error + cell) \<Rightarrow> (frame \<Rightarrow> nat) \<Rightarrow> string
     \<Rightarrow> ic_frame analysis \<Rightarrow> (error \<times> ic_frame analysis) + ic_frame analysis" where
  "ic_overall corr height method an =
     (case collect_results
             (map (\<lambda>fac. collect_results
                            (map (select_ic corr height method fac (an_labels an)) (an_dl an)))
                  (an_facs an)) of
        Inl err \<Rightarrow> Inl (err, an)
      | Inr ics \<Rightarrow>
          let s1 = setattr (an_summary an) ''symbol_ic''
                     (PyList (map (\<lambda>ic. Frame (PerSymbol (map fst ic))) ics));
              s2 = setattr s1 ''_ic_overall''
                     (PyList (map (\<lambda>ic. Frame (Overall (agg_dfs_weighted (an_labels an) ic))) ics))
          in Inr (an\<lparr>an_summary := s2\<rparr>))"

section \<open>Example values\<close>

text \<open>An engine whose every operation fails, and a small store and analysis object.\<close>

definition failing_engine :: "nat engine" where
  "failing_engine =
     \<lparr>eng_select = (\<lambda>a ls v. Inl IndexError), eng_concat = (\<lambda>fs ts. Inl IndexError),
      eng_div = (\<lambda>a b. Inl IndexError), eng_getitem = (\<lambda>t s. Inl IndexError),
      eng_iloc = (\<lambda>t i. Inl IndexError), eng_item0 = (\<lambda>v. Inl IndexError),
      eng_slice_col = (\<lambda>v i. Inl IndexError)\<rparr>"

definition example_store :: "nat summary" where
  "example_store =
     setattr (Summary_init [''a'', ''b''] [''label_1'']) ''group_rets'' (PyList [Frame 1, Frame 2])"

definition example_analysis :: "nat analysis" where
  "example_analysis =
     \<lparr>an_facs = [''a''], an_base_label = ''r'', an_label_periods = [1], an_labels = [''label_1''],
      an_dl = [], an_summary = Summary_init [''a''] [''label_1'']\<rparr>"

definition two_factor_analysis :: "nat analysis" where
  "two_factor_analysis =
     \<lparr>an_facs = [''a'', ''b''], an_base_label = ''r'', an_label_periods = [1],
      an_labels = [''label_1''], an_dl = [], an_summary = Summary_init [''a'', ''b''] [''label_1'']\<rparr>"




text \<open>An analysis object with two symbols, one factor and one label.\<close>

definition ic_example :: "ic_frame analysis" where
  "ic_example =
     \<lparr>an_facs = [''a''], an_base_label = ''r'', an_label_periods = [1], an_labels = [''label_1''],
      an_dl = [[''a'' \<mapsto> [Some 1]], Map.empty],
      an_summary = Summary_init [''a''] [''label_1'']\<rparr>"

section \<open>Properties\<close>

lemma clip_f64_range:
  assumes "lo \<le> hi"
  shows "clip_f64 lo hi v = NaN \<or> (\<exists>x. clip_f64 lo hi v = Fin x \<and> lo \<le> x \<and> x \<le> hi)"
  using assms by (cases v) auto

lemma fill_nan_clip_range:
  assumes "lo \<le> hi"
  shows "fill_nan_None (clip lo hi c) = None
     \<or> (\<exists>x. fill_nan_None (clip lo hi c) = Some (Fin x) \<and> lo \<le> x \<and> x \<le> hi)"
proof (cases c)
  case None
  then show ?thesis by (simp add: clip_def fill_nan_None_def)
next
  case (Some v)
  from clip_f64_range [OF assms, of v] show ?thesis
  proof
    assume "clip_f64 lo hi v = NaN"
    with Some show ?thesis by (simp add: clip_def fill_nan_None_def)
  next
    assume "\<exists>x. clip_f64 lo hi v = Fin x \<and> lo \<le> x \<and> x \<le> hi"
    then obtain x where "clip_f64 lo hi v = Fin x" "lo \<le> x" "x \<le> hi" by blast
    with Some have "fill_nan_None (clip lo hi c) = Some (Fin x) \<and> lo \<le> x \<and> x \<le> hi"
      by (simp add: clip_def fill_nan_None_def)
    then show ?thesis by blast
  qed
qed

text \<open>
  C3: every value that \<open>stable_corr\<close> produces is null or a finite number within
  [-0.2, 0.2], whatever the engine's correlation returned, and a not-a-number
  correlation becomes null.
\<close>

theorem stable_corr_bounded:
  "(stable_corr c = None \<or> (\<exists>x. stable_corr c = Some (Fin x) \<and> - 0.2 \<le> x \<and> x \<le> 0.2))
   \<and> stable_corr (Some NaN) = None"
proof -
  have nan: "stable_corr (Some NaN) = None"
    by (simp add: stable_corr_def clip_def fill_nan_None_def)
  have "(- 0.2 :: real) \<le> 0.2" by simp
  from fill_nan_clip_range [OF this, of c]
  have rng: "stable_corr c = None \<or> (\<exists>x. stable_corr c = Some (Fin x) \<and> - 0.2 \<le> x \<and> x \<le> 0.2)"
    unfolding stable_corr_def .
  from rng nan show ?thesis by (rule conjI)
qed

lemma valid_lift1: "valid (lift1 f xs) = map f (valid xs)"
  by (induction xs) (auto simp: valid_def lift1_def List.map_filter_simps split: option.splits)

lemma length_rolling_sum: "length (rolling_sum n m xs) = length xs"
  by (simp add: rolling_sum_def)

lemma length_shift: "length (shift k xs) = length xs"
  by (auto simp: shift_def)

lemma length_label_col: "length (label_col n c) = length c"
  by (simp add: label_col_def fill_null_def length_shift lift1_def length_rolling_sum)

lemma shift_back_nth:
  assumes "t < length xs"
  shows "shift (- int j) xs ! t = (if t + j < length xs then xs ! (t + j) else None)"
proof (cases "j = 0")
  case True
  with assms show ?thesis by (simp add: shift_def)
next
  case False
  then have eq: "shift (- int j) xs = drop j xs @ replicate (min j (length xs)) None"
    by (simp add: shift_def)
  show ?thesis
  proof (cases "t + j < length xs")
    case True
    then have "t < length (drop j xs)" by simp
    then have "(drop j xs @ replicate (min j (length xs)) None) ! t = drop j xs ! t"
      by (simp add: nth_append)
    also have "\<dots> = xs ! (t + j)" using True by (simp add: add.commute)
    finally show ?thesis using True eq by simp
  next
    case nlt: False
    then have a: "\<not> t < length (drop j xs)" by simp
    have b: "t - length (drop j xs) < min j (length xs)"
      using assms nlt \<open>j \<noteq> 0\<close> by (simp add: min_def) arith
    have "(drop j xs @ replicate (min j (length xs)) None) ! t
        = replicate (min j (length xs)) None ! (t - length (drop j xs))"
      using a by (simp add: nth_append)
    also have "\<dots> = None" using b by (rule nth_replicate)
    finally show ?thesis using nlt eq by simp
  qed
qed

lemma rolling_window_full:
  "rolling_window n (t + n - 1) xs = take n (drop t xs)" if "0 < n"
  using that by (simp add: rolling_window_def drop_take)

lemma rolling_window_lift1: "rolling_window n i (lift1 f xs) = lift1 f (rolling_window n i xs)"
  by (simp add: rolling_window_def lift1_def take_map drop_map)

lemma rolling_sum_nth:
  assumes "i < length xs"
  shows "rolling_sum n m xs ! i =
    (let vs = valid (rolling_window n i xs) in if m \<le> length vs then Some (sum_list vs) else None)"
  using assms by (simp add: rolling_sum_def)

lemma label_col_row:
  assumes "1 < n" and "t < length c"
  shows "label_col n c ! t =
     (if t + n \<le> length c
      then (let vs = valid (take n (drop t c))
            in if n div 2 \<le> length vs then Some (exp (\<Sum>v\<leftarrow>vs. ln (1 + v)) - 1) else Some 0)
      else Some 0)"
proof -
  let ?lg = "lift1 (\<lambda>x. ln (1 + x)) c"
  let ?rs = "rolling_sum n (n div 2) ?lg"
  let ?ex = "lift1 (\<lambda>s. exp s - 1) ?rs"
  have len: "length ?ex = length c"
    by (simp add: lift1_def length_rolling_sum)
  have k: "- int n + 1 = - int (n - 1)" using assms(1) by simp
  have sh: "shift (- int n + 1) ?ex ! t = (if t + (n - 1) < length c then ?ex ! (t + (n - 1)) else None)"
    unfolding k using shift_back_nth [of t ?ex "n - 1"] assms(2) len by simp
  have fl: "label_col n c ! t = (case shift (- int n + 1) ?ex ! t of None \<Rightarrow> Some 0 | Some x \<Rightarrow> Some x)"
    using assms(2) by (simp add: label_col_def fill_null_def length_shift len)
  show ?thesis
  proof (cases "t + n \<le> length c")
    case False
    then have "\<not> t + (n - 1) < length c" using assms(1) by simp
    with sh fl False show ?thesis by simp
  next
    case True
    then have i: "t + (n - 1) < length c" using assms(1) by simp
    have i': "t + (n - 1) < length ?lg" using i by (simp add: lift1_def)
    have w: "valid (rolling_window n (t + (n - 1)) ?lg) = map (\<lambda>x. ln (1 + x)) (valid (take n (drop t c)))"
      using rolling_window_full [of n t c] assms(1)
      by (simp add: rolling_window_lift1 valid_lift1)
    have rs: "?rs ! (t + (n - 1)) =
        (let vs = valid (take n (drop t c))
         in if n div 2 \<le> length vs then Some (\<Sum>v\<leftarrow>vs. ln (1 + v)) else None)"
      using rolling_sum_nth [OF i', of n "n div 2"] w by (simp add: Let_def)
    have ex: "?ex ! (t + (n - 1)) = map_option (\<lambda>s. exp s - 1) (?rs ! (t + (n - 1)))"
      using i by (simp add: lift1_def length_rolling_sum)
    from sh i have "shift (- int n + 1) ?ex ! t = ?ex ! (t + (n - 1))" by simp
    with fl ex rs True show ?thesis by (simp add: Let_def)
  qed
qed


lemma str_nat_ne: "str_nat n \<noteq> []"
  by (subst str_nat.simps) simp

lemma digit_inj: "a < 10 \<Longrightarrow> b < 10 \<Longrightarrow> ''0123456789'' ! a = ''0123456789'' ! b \<Longrightarrow> a = b"
proof -
  assume a: "a < 10" and b: "b < 10" and e: "''0123456789'' ! a = ''0123456789'' ! b"
  have d: "distinct ''0123456789''" by simp
  have l: "length ''0123456789'' = 10" by simp
  from d a b e l show "a = b" by (simp add: nth_eq_iff_index_eq)
qed

lemma str_nat_inj: "str_nat m = str_nat n \<Longrightarrow> m = n"
proof (induction m arbitrary: n rule: str_nat.induct)
  case (1 m)
  show ?case
  proof (cases "m < 10")
    case True
    then have sm: "str_nat m = [''0123456789'' ! m]" by (subst str_nat.simps) simp
    show ?thesis
    proof (cases "n < 10")
      case nl: True
      then have "str_nat n = [''0123456789'' ! n]" by (subst str_nat.simps) simp
      with sm "1.prems" have "''0123456789'' ! m = ''0123456789'' ! n" by simp
      with True nl show ?thesis by (rule digit_inj)
    next
      case False
      then have "str_nat n = str_nat (n div 10) @ [''0123456789'' ! (n mod 10)]"
        by (subst str_nat.simps) simp
      with sm "1.prems" have "str_nat (n div 10) = []" by simp
      with str_nat_ne show ?thesis by blast
    qed
  next
    case False
    then have sm: "str_nat m = str_nat (m div 10) @ [''0123456789'' ! (m mod 10)]"
      by (subst str_nat.simps) simp
    show ?thesis
    proof (cases "n < 10")
      case True
      then have "str_nat n = [''0123456789'' ! n]" by (subst str_nat.simps) simp
      with sm "1.prems" have "str_nat (m div 10) = []" by simp
      with str_nat_ne show ?thesis by blast
    next
      case nf: False
      then have "str_nat n = str_nat (n div 10) @ [''0123456789'' ! (n mod 10)]"
        by (subst str_nat.simps) simp
      with sm "1.prems" have e1: "str_nat (m div 10) = str_nat (n div 10)"
        and e2: "''0123456789'' ! (m mod 10) = ''0123456789'' ! (n mod 10)" by simp_all
      from "1.IH" [OF False e1] have d: "m div 10 = n div 10" .
      have "m mod 10 = n mod 10" by (rule digit_inj [OF _ _ e2]) simp_all
      with d show ?thesis by (metis div_mult_mod_eq)
    qed
  qed
qed

lemma label_name_inj: "label_name m = label_name n \<Longrightarrow> m = n"
  by (simp add: label_name_def str_nat_inj)

lemma collect_results_Inr: "collect_results rs = Inr xs \<Longrightarrow> rs = map Inr xs"
  by (induction rs arbitrary: xs) (auto split: sum.splits)

lemma collect_results_map_Inr: "collect_results (map Inr xs) = Inr xs"
  by (induction xs) auto

lemma collect_results_nth:
  assumes "collect_results (map f xs) = Inr ys"
  shows "length ys = length xs" and "i < length xs \<Longrightarrow> f (xs ! i) = Inr (ys ! i)"
proof -
  from collect_results_Inr [OF assms] have e: "map f xs = map Inr ys" .
  then have "length (map f xs) = length (map Inr ys)" by simp
  then show l: "length ys = length xs" by simp
  assume i: "i < length xs"
  from e have "map f xs ! i = map Inr ys ! i" by simp
  with i l show "f (xs ! i) = Inr (ys ! i)" by simp
qed

lemma eval_exprs_names:
  assumes "eval_exprs es fr = Inr cs"
  shows "map fst cs = map fst es"
proof (rule nth_equalityI)
  from assms have c: "collect_results
       (map (\<lambda>(name, e). case e fr of Inl err \<Rightarrow> Inl err | Inr c \<Rightarrow> Inr (name, c)) es) = Inr cs"
    by (simp add: eval_exprs_def)
  from collect_results_nth(1) [OF c] show "length (map fst cs) = length (map fst es)" by simp
  fix i assume "i < length (map fst cs)"
  then have i: "i < length es" using collect_results_nth(1) [OF c] by simp
  from collect_results_nth(2) [OF c i]
  have "(case es ! i of (name, e) \<Rightarrow> case e fr of Inl err \<Rightarrow> Inl err | Inr c \<Rightarrow> Inr (name, c)) = Inr (cs ! i)" .
  then have "fst (cs ! i) = fst (es ! i)"
    by (cases "es ! i"; cases "snd (es ! i) fr") (auto simp: fst_def split: prod.splits)
  with i collect_results_nth(1) [OF c] show "map fst cs ! i = map fst es ! i" by simp
qed

lemma eval_exprs_member:
  assumes "eval_exprs es fr = Inr cs" and "(name, e) \<in> set es"
  shows "\<exists>c. e fr = Inr c \<and> (name, c) \<in> set cs"
proof -
  from assms(1) have c: "collect_results
       (map (\<lambda>(name, e). case e fr of Inl err \<Rightarrow> Inl err | Inr c \<Rightarrow> Inr (name, c)) es) = Inr cs"
    by (simp add: eval_exprs_def)
  from assms(2) obtain i where i: "i < length es" and ei: "es ! i = (name, e)"
    by (auto simp: in_set_conv_nth)
  from collect_results_nth(2) [OF c i] ei
  have "(case e fr of Inl err \<Rightarrow> Inl err | Inr c \<Rightarrow> Inr (name, c)) = Inr (cs ! i)" by simp
  then obtain c where ec: "e fr = Inr c" and ci: "cs ! i = (name, c)"
    by (auto split: sum.splits)
  from i collect_results_nth(1) [OF c] have "i < length cs" by simp
  with ci have "(name, c) \<in> set cs" by (metis nth_mem)
  with ec show ?thesis by blast
qed

lemma with_columns_lookup:
  assumes "with_columns es fr = Inr fr'" and "(name, e) \<in> set es"
  shows "\<exists>c. e fr = Inr c \<and> fr' name = Some c"
proof -
  from assms(1) have d: "distinct (map fst es)"
    by (auto simp: with_columns_def split: if_splits)
  with assms(1) obtain cs where ev: "eval_exprs es fr = Inr cs" and fr': "fr' = fr ++ map_of cs"
    by (auto simp: with_columns_def split: sum.splits)
  from eval_exprs_member [OF ev assms(2)] obtain c where ec: "e fr = Inr c" and m: "(name, c) \<in> set cs"
    by blast
  from d eval_exprs_names [OF ev] have "distinct (map fst cs)" by simp
  with m have "map_of cs name = Some c" by simp
  with fr' ec show ?thesis by simp
qed

lemma with_columns_other:
  assumes "with_columns es fr = Inr fr'" and "name \<notin> fst ` set es"
  shows "fr' name = fr name"
proof -
  from assms(1) obtain cs where ev: "eval_exprs es fr = Inr cs" and fr': "fr' = fr ++ map_of cs"
    by (auto simp: with_columns_def split: sum.splits if_splits)
  from eval_exprs_names [OF ev] assms(2) have "name \<notin> fst ` set cs"
    by (metis set_map)
  then have "map_of cs name = None" by (simp add: map_of_eq_None_iff)
  with fr' show ?thesis by (simp add: map_add_def)
qed

lemma col_Inr: "col name fr = Inr c \<Longrightarrow> fr name = Some c"
  by (simp add: col_def split: option.splits)

lemma apply_expr_col_Inr: "apply_expr f (col name) fr = Inr c \<Longrightarrow> \<exists>c0. fr name = Some c0 \<and> c = f c0"
  by (auto simp: apply_expr_def col_def split: option.splits sum.splits)

lemma label_exprs_names:
  "fst ` set (label_exprs base ps) = label_name ` {n \<in> set ps. n \<noteq> 1} \<union> {''label_1''}"
  by (auto simp: label_exprs_def image_iff)

lemma winsorize_exprs_names: "fst ` set (winsorize_exprs wz fs) = set fs"
  by (auto simp: winsorize_exprs_def image_iff)

lemma dl_with_columns_nth:
  assumes "dl_with_columns es dfs = Inr dfs'"
  shows "length dfs' = length dfs" and "i < length dfs \<Longrightarrow> with_columns es (dfs ! i) = Inr (dfs' ! i)"
  using assms collect_results_nth(1) [of "with_columns es" dfs dfs']
    collect_results_nth(2) [of "with_columns es" dfs dfs' i]
  by (simp_all add: dl_with_columns_def)

lemma Analysis_init_dl_steps:
  assumes "Analysis_init_dl wz fs base lp dp dfs = Inr dfs'" and "i < length dfs"
  shows "\<exists>dfs1. winsorize_step wz fs dp dfs = Inr dfs1 \<and> length dfs1 = length dfs
           \<and> length dfs' = length dfs
           \<and> with_columns (label_exprs base (1 # lp)) (dfs1 ! i) = Inr (dfs' ! i)
           \<and> (if dp then with_columns (winsorize_exprs wz fs) (dfs ! i) = Inr (dfs1 ! i)
              else dfs1 = dfs)"
proof -
  from assms(1) obtain dfs1 where w: "winsorize_step wz fs dp dfs = Inr dfs1"
    and l: "dl_with_columns (label_exprs base (1 # lp)) dfs1 = Inr dfs'"
    by (auto simp: Analysis_init_dl_def split: sum.splits)
  have s: "length dfs1 = length dfs \<and>
      (if dp then with_columns (winsorize_exprs wz fs) (dfs ! i) = Inr (dfs1 ! i) else dfs1 = dfs)"
  proof (cases dp)
    case True
    with w have "dl_with_columns (winsorize_exprs wz fs) dfs = Inr dfs1"
      by (simp add: winsorize_step_def dl_with_columns_flag_def)
    from dl_with_columns_nth [OF this] assms(2) True show ?thesis by simp
  next
    case False
    with w show ?thesis by (simp add: winsorize_step_def dl_with_columns_flag_def)
  qed
  then have i1: "i < length dfs1" using assms(2) by simp
  from dl_with_columns_nth [OF l] i1 s w show ?thesis by auto
qed

text \<open>
  C9: whatever the horizon list, in every frame of the collection that
  \<open>Analysis.__init__\<close> builds the column \<open>label_1\<close> is the base label column,
  cell for cell, as the label step received it. That is the caller's base column
  whenever winsorization is off or the base label is not one of the factors, and it
  is the base column of the result whenever the base label does not carry the name
  of a derived label.
\<close>

theorem label_1_identity:
  assumes "Analysis_init_dl wz fs base lp dp dfs = Inr dfs'" and "i < length dfs"
  shows "\<exists>dfs1 c. winsorize_step wz fs dp dfs = Inr dfs1 \<and> length dfs' = length dfs
           \<and> (dfs1 ! i) base = Some c \<and> (dfs' ! i) ''label_1'' = Some c
           \<and> ((\<not> dp \<or> base \<notin> set fs) \<longrightarrow> (dfs ! i) base = Some c)
           \<and> (base \<notin> label_name ` {n \<in> set lp. n \<noteq> 1} \<longrightarrow> (dfs' ! i) base = Some c)"
proof -
  from Analysis_init_dl_steps [OF assms] obtain dfs1 where
    w: "winsorize_step wz fs dp dfs = Inr dfs1" and len: "length dfs' = length dfs"
    and lab: "with_columns (label_exprs base (1 # lp)) (dfs1 ! i) = Inr (dfs' ! i)"
    and win: "if dp then with_columns (winsorize_exprs wz fs) (dfs ! i) = Inr (dfs1 ! i)
              else dfs1 = dfs"
    by blast
  have "(''label_1'', col base) \<in> set (label_exprs base (1 # lp))"
    by (simp add: label_exprs_def)
  from with_columns_lookup [OF lab this] obtain c where
    c: "col base (dfs1 ! i) = Inr c" and l1: "(dfs' ! i) ''label_1'' = Some c" by blast
  from col_Inr [OF c] have b1: "(dfs1 ! i) base = Some c" .
  have orig: "(dfs ! i) base = Some c" if "\<not> dp \<or> base \<notin> set fs"
  proof (cases dp)
    case False
    with win b1 show ?thesis by simp
  next
    case True
    with that have "base \<notin> fst ` set (winsorize_exprs wz fs)"
      by (simp add: winsorize_exprs_names)
    from with_columns_other [OF _ this, of "dfs ! i" "dfs1 ! i"] win True b1
    show ?thesis by simp
  qed
  have res: "(dfs' ! i) base = Some c" if nb: "base \<notin> label_name ` {n \<in> set lp. n \<noteq> 1}"
  proof (cases "base = ''label_1''")
    case True
    with l1 show ?thesis by simp
  next
    case False
    with nb have "base \<notin> fst ` set (label_exprs base (1 # lp))"
      by (auto simp: label_exprs_names)
    from with_columns_other [OF lab this] b1 show ?thesis by simp
  qed
  from w len b1 l1 orig res show ?thesis by blast
qed

text \<open>
  C1 (amended): for a horizon \<open>n > 1\<close> of the configured label periods, the column
  \<open>label_n\<close> has the length of the base column; at a row \<open>t\<close> with \<open>t + n\<close> within
  the column it holds exp (sum of log (1 + base) over the non-null cells of rows
  \<open>t .. t + n - 1\<close>) - 1 when at least \<open>n div 2\<close> (the floor of n / 2) of these cells
  are non-null and 0 otherwise; the last \<open>n - 1\<close> rows hold 0.
\<close>

theorem label_n_rows:
  assumes "Analysis_init_dl wz fs base lp dp dfs = Inr dfs'" and "i < length dfs"
    and "n \<in> set lp" and "1 < n"
  shows "\<exists>dfs1 c. winsorize_step wz fs dp dfs = Inr dfs1 \<and> (dfs1 ! i) base = Some c
           \<and> (dfs' ! i) (label_name n) = Some (label_col n c)
           \<and> length (label_col n c) = length c
           \<and> (\<forall>t < length c. label_col n c ! t =
                (if t + n \<le> length c
                 then (let vs = valid (take n (drop t c))
                       in if n div 2 \<le> length vs
                          then Some (exp (\<Sum>v\<leftarrow>vs. ln (1 + v)) - 1) else Some 0)
                 else Some 0))"
proof -
  from Analysis_init_dl_steps [OF assms(1,2)] obtain dfs1 where
    w: "winsorize_step wz fs dp dfs = Inr dfs1"
    and lab: "with_columns (label_exprs base (1 # lp)) (dfs1 ! i) = Inr (dfs' ! i)"
    by blast
  from assms(3,4) have "(label_name n, apply_expr (label_col n) (col base)) \<in> set (label_exprs base (1 # lp))"
    by (auto simp: label_exprs_def)
  from with_columns_lookup [OF lab this] obtain c' where
    c': "apply_expr (label_col n) (col base) (dfs1 ! i) = Inr c'" and ln: "(dfs' ! i) (label_name n) = Some c'"
    by blast
  from apply_expr_col_Inr [OF c'] obtain c where b: "(dfs1 ! i) base = Some c" and e: "c' = label_col n c"
    by blast
  have rows: "\<forall>t < length c. label_col n c ! t =
                (if t + n \<le> length c
                 then (let vs = valid (take n (drop t c))
                       in if n div 2 \<le> length vs
                          then Some (exp (\<Sum>v\<leftarrow>vs. ln (1 + v)) - 1) else Some 0)
                 else Some 0)"
    using label_col_row [OF assms(4)] by blast
  from w b ln e length_label_col [of n c] rows show ?thesis by blast
qed


lemma init_example_winsorized:
  "Analysis_init_dl (\<lambda>c. c) [''f''] ''r'' [3] True
      [[''r'' \<mapsto> [Some 1, None, None], ''f'' \<mapsto> [Some 2, Some 3, None]]]
   = Inr [[''r'' \<mapsto> [Some 1, None, None], ''f'' \<mapsto> [Some 2, Some 3, None],
           ''label_3'' \<mapsto> label_col 3 [Some 1, None, None],
           ''label_1'' \<mapsto> [Some 1, None, None]]]"
  apply (simp add: Analysis_init_dl_def winsorize_step_def dl_with_columns_flag_def
      dl_with_columns_def with_columns_def eval_exprs_def winsorize_exprs_def label_exprs_def
      label_name_def str_nat.simps apply_expr_def col_def)
  apply (rule ext)
  apply (simp add: map_add_def)
  done

lemma init_example_raw:
  "Analysis_init_dl (\<lambda>c. c) [] ''r'' [3] False [[''r'' \<mapsto> [Some 1, None, None]]]
   = Inr [[''r'' \<mapsto> [Some 1, None, None],
           ''label_3'' \<mapsto> label_col 3 [Some 1, None, None],
           ''label_1'' \<mapsto> [Some 1, None, None]]]"
  apply (simp add: Analysis_init_dl_def winsorize_step_def dl_with_columns_flag_def
      dl_with_columns_def with_columns_def eval_exprs_def winsorize_exprs_def label_exprs_def
      label_name_def str_nat.simps apply_expr_def col_def)
  apply (rule ext)
  apply (simp add: map_add_def)
  done

theorem label_1_identity_witness:
  "Analysis_init_dl (\<lambda>c. c) [''f''] ''r'' [3] True
      [[''r'' \<mapsto> [Some 1, None, None], ''f'' \<mapsto> [Some 2, Some 3, None]]]
   = Inr [[''r'' \<mapsto> [Some 1, None, None], ''f'' \<mapsto> [Some 2, Some 3, None],
           ''label_3'' \<mapsto> label_col 3 [Some 1, None, None],
           ''label_1'' \<mapsto> [Some 1, None, None]]]
   \<and> ([[''r'' \<mapsto> [Some 1, None, None], ''f'' \<mapsto> [Some 2, Some 3, None],
           ''label_3'' \<mapsto> label_col 3 [Some 1, None, None],
           ''label_1'' \<mapsto> [Some 1, None, None]]] ! 0) ''label_1'' = Some [Some 1, None, None]"
proof -
  have i: "0 < length [[''r'' \<mapsto> [Some (1::real), None, None], ''f'' \<mapsto> [Some 2, Some 3, None]]]"
    by simp
  from label_1_identity [OF init_example_winsorized i]
  show ?thesis using init_example_winsorized by auto
qed

text \<open>
  The column of the specification's wording and the column of the code differ on
  horizon 3 when only one of three cells is non-null: one valid observation is
  enough for the code (3 // 2 = 1), not for the ceiling of 3 / 2.
\<close>

theorem label_n_ceiling_counterexample:
  "label_col 3 [Some 1, None, None] \<noteq> label_col_spec 3 [Some 1, None, None]"
  by (simp add: label_col_def label_col_spec_def fill_null_def shift_def lift1_def rolling_sum_def
      rolling_window_def valid_def List.map_filter_simps upt_rec)

theorem label_n_rows_witness:
  "Analysis_init_dl (\<lambda>c. c) [] ''r'' [3] False [[''r'' \<mapsto> [Some 1, None, None]]]
   = Inr [[''r'' \<mapsto> [Some 1, None, None],
           ''label_3'' \<mapsto> label_col 3 [Some 1, None, None],
           ''label_1'' \<mapsto> [Some 1, None, None]]]
   \<and> (3::nat) \<in> set [3] \<and> (1::nat) < 3
   \<and> label_col 3 [Some 1, None, None] ! 0 = Some 1
   \<and> label_col 3 [Some 1, None, None] ! 1 = Some 0
   \<and> label_col 3 [Some 1, None, None] ! 2 = Some 0"
proof -
  have i: "0 < length [[''r'' \<mapsto> [Some (1::real), None, None]]]" by simp
  have n: "(3::nat) \<in> set [3]" by simp
  have g: "(1::nat) < 3" by simp
  from label_n_rows [OF init_example_raw i n g]
  obtain c where c: "([[''r'' \<mapsto> [Some (1::real), None, None]]] ! 0) ''r'' = Some c"
    and rows: "\<forall>t < length c. label_col 3 c ! t =
                (if t + 3 \<le> length c
                 then (let vs = valid (take 3 (drop t c))
                       in if 3 div 2 \<le> length vs
                          then Some (exp (\<Sum>v\<leftarrow>vs. ln (1 + v)) - 1) else Some 0)
                 else Some 0)"
    by (auto simp: winsorize_step_def dl_with_columns_flag_def)
  from c have ceq: "c = [Some 1, None, None]" by simp
  from rows ceq have r0: "label_col 3 [Some 1, None, None] ! 0 = Some 1"
    by (simp add: valid_def List.map_filter_simps)
  from rows ceq have r1: "label_col 3 [Some 1, None, None] ! 1 = Some 0"
    by simp
  from rows ceq have r2: "label_col 3 [Some 1, None, None] ! 2 = Some 0"
    by simp
  from init_example_raw n g r0 r1 r2 show ?thesis by blast
qed

lemma round_half_even_below:
  assumes "0 < d" and "d < 1 / 2"
  shows "round_half_even (of_int n - d) = n"
proof -
  have f: "\<lfloor>of_int n - d\<rfloor> = n - 1"
    using assms by (intro floor_unique) auto
  then show ?thesis using assms by (simp add: round_half_even_def Let_def)
qed

lemma round_half_even_above:
  assumes "0 \<le> d" and "d < 1 / 2"
  shows "round_half_even (of_int n + d) = n"
proof -
  have f: "\<lfloor>of_int n + d\<rfloor> = n"
    using assms by (intro floor_unique) auto
  then show ?thesis using assms by (simp add: round_half_even_def Let_def)
qed

lemma floor_log2_eq:
  assumes "2 ^ k \<le> x" and "x < 2 ^ Suc k"
  shows "\<lfloor>log 2 x\<rfloor> = int k"
proof -
  have x: "0 < x" using assms(1) by (smt (verit) zero_less_power)
  have "2 powr real_of_int (int k) \<le> x \<and> x < 2 powr (real_of_int (int k) + 1)"
    using assms by (simp add: powr_realpow powr_add)
  then show ?thesis using x by (simp add: floor_log_eq_powr_iff)
qed

lemma f64_round_minimum: "f64_round (10000000 - eps) = 10000000"
proof -
  let ?x = "10000000 - eps"
  have e: "\<lfloor>log 2 \<bar>?x\<bar>\<rfloor> = 23"
  proof -
    have "\<bar>?x\<bar> = ?x" by (simp add: eps_def)
    moreover have "\<lfloor>log 2 ?x\<rfloor> = int 23"
      by (rule floor_log2_eq) (simp_all add: eps_def)
    ultimately show ?thesis by simp
  qed
  have p: "2 powr of_int (23 - 52) = (1 / 2 ^ 29 :: real)"
    by (simp add: powr_minus_divide powr_realpow [symmetric, of 2 29])
  have q: "?x / (1 / 2 ^ 29) = of_int 5368709120000000 - 536870912 / 10 ^ 10"
    by (simp add: eps_def field_simps)
  have r: "round_half_even (of_int 5368709120000000 - 536870912 / 10 ^ 10) = 5368709120000000"
    by (rule round_half_even_below) simp_all
  have "?x \<noteq> 0" by (simp add: eps_def)
  then have "f64_round ?x = of_int (round_half_even (?x / 2 powr of_int (23 - 52))) * 2 powr of_int (23 - 52)"
    using e by (simp add: f64_round_def Let_def)
  also have "\<dots> = of_int 5368709120000000 * (1 / 2 ^ 29)"
    unfolding p q r ..
  also have "\<dots> = 10000000" by simp
  finally show ?thesis .
qed

lemma f64_round_maximum: "f64_round (30000000 + eps) = 30000000"
proof -
  let ?x = "30000000 + eps"
  have e: "\<lfloor>log 2 \<bar>?x\<bar>\<rfloor> = 24"
  proof -
    have "\<bar>?x\<bar> = ?x" by (simp add: eps_def)
    moreover have "\<lfloor>log 2 ?x\<rfloor> = int 24"
      by (rule floor_log2_eq) (simp_all add: eps_def)
    ultimately show ?thesis by simp
  qed
  have p: "2 powr of_int (24 - 52) = (1 / 2 ^ 28 :: real)"
    by (simp add: powr_minus_divide powr_realpow [symmetric, of 2 28])
  have q: "?x / (1 / 2 ^ 28) = of_int 8053063680000000 + 268435456 / 10 ^ 10"
    by (simp add: eps_def field_simps)
  have r: "round_half_even (of_int 8053063680000000 + 268435456 / 10 ^ 10) = 8053063680000000"
    by (rule round_half_even_above) simp_all
  have "?x \<noteq> 0" by (simp add: eps_def)
  then have "f64_round ?x = of_int (round_half_even (?x / 2 powr of_int (24 - 52))) * 2 powr of_int (24 - 52)"
    using e by (simp add: f64_round_def Let_def)
  also have "\<dots> = of_int 8053063680000000 * (1 / 2 ^ 28)"
    unfolding p q r ..
  also have "\<dots> = 30000000" by simp
  finally show ?thesis .
qed

lemma cut_right_at_or_below_edges:
  assumes "\<forall>e \<in> set bs. x \<le> e"
  shows "cut_right bs ls x = None"
  using assms by (induction bs ls x rule: cut_right.induct) auto

lemma linspace_from_start:
  assumes "a \<le> b" and "e \<in> set (linspace a b n)"
  shows "a \<le> e"
proof -
  from assms(2) have "e \<in> (\<lambda>k. a + real k * ((b - a) / real (n - 1))) ` set [0..<n]"
    unfolding linspace_def set_map .
  then obtain k where "e = a + real k * ((b - a) / real (n - 1))"
    by (rule imageE)
  moreover have "0 \<le> real k * ((b - a) / real (n - 1))"
    using assms(1) by simp
  ultimately show ?thesis by simp
qed

text \<open>
  C4: on the factor column [1e7, 2e7, 3e7] with two groups the code does not bucket
  the minimum. In binary64 \<open>1e7 - 1e-10\<close> is \<open>1e7\<close>, so the first edge is the
  minimum itself; with any \<open>linspace\<close> whose values are not below its start no
  right-closed bin holds the minimum, and \<open>cut\<close> raises.
\<close>

theorem get_ts_group_minimum_excluded:
  assumes "\<forall>a b n. a \<le> b \<longrightarrow> (\<forall>e \<in> set (lin a b n). a \<le> e)"
  shows "get_ts_group quantile lin [Some 10000000, Some 20000000, Some 30000000] 2 False pb
           = Inl (ComputeError ''value not in bins'')"
proof -
  let ?bins = "ts_bins lin 10000000 30000000 2"
  have b: "?bins = lin 10000000 30000000 3"
    by (simp add: ts_bins_def f64_round_minimum f64_round_maximum)
  have le: "(10000000::real) \<le> 30000000" by simp
  from assms le have "\<forall>e \<in> set (lin 10000000 30000000 3). 10000000 \<le> e"
    by blast
  then have "\<forall>e \<in> set ?bins. 10000000 \<le> e"
    unfolding b .
  then have "cut_right ?bins (ts_labels lin 2) 10000000 = None"
    by (rule cut_right_at_or_below_edges)
  then have c: "cut_cell ?bins (ts_labels lin 2) (Some 10000000) = Inl (ComputeError ''value not in bins'')"
    by (simp add: cut_cell_def)
  have v: "valid [Some (10000000::real), Some 20000000, Some 30000000] = [10000000, 20000000, 30000000]"
    by (simp add: valid_def List.map_filter_simps)
  show ?thesis
    by (simp add: get_ts_group_def v c)
qed

theorem get_ts_group_minimum_excluded_witness:
  "get_ts_group (\<lambda>q vs. 0) linspace [Some 10000000, Some 20000000, Some 30000000] 2 False 0.025
     = Inl (ComputeError ''value not in bins'')"
proof -
  have h: "\<forall>a b n. a \<le> b \<longrightarrow> (\<forall>e \<in> set (linspace a b n). a \<le> e)"
    using linspace_from_start by blast
  from get_ts_group_minimum_excluded [OF h] show ?thesis .
qed

lemma map_of_zip_first:
  assumes "length ks = length vs"
  shows "map_of (zip ks vs) k = None \<longleftrightarrow> k \<notin> set ks"
  using assms by (simp add: map_of_zip_is_None)

lemma map_of_zip_position:
  assumes "length ks = length vs" and "k \<in> set ks"
  shows "\<exists>i < length ks. ks ! i = k \<and> (\<forall>j < i. ks ! j \<noteq> k) \<and> map_of (zip ks vs) k = Some (vs ! i)"
  using assms
proof (induction ks vs rule: list_induct2)
  case Nil
  then show ?case by simp
next
  case (Cons x xs y ys)
  show ?case
  proof (cases "x = k")
    case True
    then have "(x # xs) ! 0 = k \<and> (\<forall>j < 0. (x # xs) ! j \<noteq> k) \<and>
        map_of (zip (x # xs) (y # ys)) k = Some ((y # ys) ! 0)" by simp
    then show ?thesis by blast
  next
    case False
    with Cons.prems have "k \<in> set xs" by simp
    from Cons.IH [OF this] obtain i where i: "i < length xs" "xs ! i = k"
      "\<forall>j < i. xs ! j \<noteq> k" "map_of (zip xs ys) k = Some (ys ! i)" by blast
    have "\<forall>j < Suc i. (x # xs) ! j \<noteq> k"
    proof (intro allI impI)
      fix j assume "j < Suc i"
      then show "(x # xs) ! j \<noteq> k" using False i(3) by (cases j) auto
    qed
    with i False have "Suc i < length (x # xs) \<and> (x # xs) ! Suc i = k \<and> (\<forall>j < Suc i. (x # xs) ! j \<noteq> k)
       \<and> map_of (zip (x # xs) (y # ys)) k = Some ((y # ys) ! Suc i)" by simp
    then show ?thesis by blast
  qed
qed

lemma recursion_limit_Suc: "recursion_limit = Suc 999"
  by (simp add: recursion_limit_def)

lemma fac_attr_single_list:
  assumes "Summary_getattribute eng st attr = Inr (PyList vs)"
  shows "fac_attr_single eng st attr fac =
     (case (case fac of
              KStr s \<Rightarrow> Inr (case map_of (zip (facs st) vs) s of None \<Rightarrow> PyNone | Some v \<Rightarrow> v)
            | KInt i \<Rightarrow> py_index vs i
            | KOther \<Rightarrow> Inl (TypeError ''fac should be str or int''))
      of Inl err \<Rightarrow> Inl err
       | Inr df \<Rightarrow>
           if df = PyNone then Inl (ValueError (''fac: '' @ str_key fac @ '' not in result''))
           else Inr df)"
proof -
  have "fac_attr_single eng st attr fac = fac_attr_single_rec (Suc 999) eng st attr fac"
    by (simp only: fac_attr_single_def recursion_limit_Suc)
  also have "\<dots> =
     (case (case fac of
              KStr s \<Rightarrow> Inr (case map_of (zip (facs st) vs) s of None \<Rightarrow> PyNone | Some v \<Rightarrow> v)
            | KInt i \<Rightarrow> py_index vs i
            | KOther \<Rightarrow> Inl (TypeError ''fac should be str or int''))
      of Inl err \<Rightarrow> Inl err
       | Inr df \<Rightarrow>
           if df = PyNone then Inl (ValueError (''fac: '' @ str_key fac @ '' not in result''))
           else Inr df)"
    unfolding fac_attr_single_rec.simps(2) using assms by (cases fac) simp_all
  finally show ?thesis .
qed

text \<open>
  On a stored list that runs parallel to the factor list and holds no \<open>None\<close> the
  lookup does what is asked of it: the \<open>ValueError\<close> exactly for a string that is
  no factor name, the explicit \<open>TypeError\<close> exactly for a key that is neither a
  string nor an int, and the entry at the first position of a factor name.
\<close>

lemma fac_attr_single_parallel:
  assumes "Summary_getattribute eng st attr = Inr (PyList vs)"
    and "length vs = length (facs st)" and "PyNone \<notin> set vs"
  shows "((\<exists>msg. fac_attr_single eng st attr fac = Inl (ValueError msg))
            \<longleftrightarrow> (\<exists>s. fac = KStr s \<and> s \<notin> set (facs st)))
       \<and> ((\<exists>msg. fac_attr_single eng st attr fac = Inl (TypeError msg)) \<longleftrightarrow> fac = KOther)
       \<and> (\<forall>s. fac = KStr s \<and> s \<in> set (facs st) \<longrightarrow>
             (\<exists>i < length (facs st). facs st ! i = s \<and> (\<forall>j < i. facs st ! j \<noteq> s)
                 \<and> fac_attr_single eng st attr fac = Inr (vs ! i)))
       \<and> (\<forall>i. fac = KInt i \<and> 0 \<le> i \<and> i < int (length (facs st)) \<longrightarrow>
             fac_attr_single eng st attr fac = Inr (vs ! nat i))"
proof (cases fac)
  case (KStr s)
  show ?thesis
  proof (cases "s \<in> set (facs st)")
    case True
    from map_of_zip_position [OF assms(2) [symmetric] True] obtain i where
      i: "i < length (facs st)" "facs st ! i = s" "\<forall>j < i. facs st ! j \<noteq> s"
         "map_of (zip (facs st) vs) s = Some (vs ! i)" by blast
    from i(1) assms(2,3) have "vs ! i \<noteq> PyNone" by (metis nth_mem)
    with i assms(1) KStr have r: "fac_attr_single eng st attr fac = Inr (vs ! i)"
      by (simp add: fac_attr_single_list)
    with i True KStr show ?thesis by auto
  next
    case False
    with assms(2) have "map_of (zip (facs st) vs) s = None"
      by (simp add: map_of_zip_is_None)
    with assms(1) KStr have "fac_attr_single eng st attr fac
        = Inl (ValueError (''fac: '' @ str_key fac @ '' not in result''))"
      by (simp add: fac_attr_single_list)
    with False KStr show ?thesis by auto
  qed
next
  case (KInt i)
  consider (pos) "0 \<le> i \<and> i < int (length vs)"
    | (neg) "i < 0 \<and> - int (length vs) \<le> i"
    | (out) "\<not> (0 \<le> i \<and> i < int (length vs))" "\<not> (i < 0 \<and> - int (length vs) \<le> i)"
    by blast
  then show ?thesis
  proof cases
    case pos
    then have "nat i < length vs" by auto
    with assms(3) have "vs ! nat i \<noteq> PyNone" by (metis nth_mem)
    with pos assms(1) KInt have "fac_attr_single eng st attr fac = Inr (vs ! nat i)"
      by (simp add: fac_attr_single_list py_index_def)
    with KInt assms(2) show ?thesis by auto
  next
    case neg
    then have "nat (int (length vs) + i) < length vs" by auto
    with assms(3) have "vs ! nat (int (length vs) + i) \<noteq> PyNone" by (metis nth_mem)
    with neg assms(1) KInt
    have "fac_attr_single eng st attr fac = Inr (vs ! nat (int (length vs) + i))"
      by (simp add: fac_attr_single_list py_index_def)
    with KInt neg show ?thesis by auto
  next
    case out
    with assms(1) KInt have "fac_attr_single eng st attr fac = Inl IndexError"
      by (simp add: fac_attr_single_list py_index_def)
    with KInt out assms(2) show ?thesis by auto
  qed
next
  case KOther
  with assms(1) have "fac_attr_single eng st attr fac = Inl (TypeError ''fac should be str or int'')"
    by (simp add: fac_attr_single_list)
  with KOther show ?thesis by auto
qed

text \<open>
  C7: with the factors \<open>a\<close> and \<open>b\<close> configured, \<open>group_ret(facs=['b'])\<close> stores a
  one-element list under \<open>group_rets\<close>, the frame of \<open>b\<close>. The lookup pairs that
  list with the configured factors from the front: \<open>fac_attr('group_rets', 'b')\<close>
  raises the \<open>ValueError\<close> although the result of \<open>b\<close> is stored, and
  \<open>fac_attr('group_rets', 'a')\<close> returns the frame of \<open>b\<close> although no result of
  \<open>a\<close> is stored. (The engine of the example answers with frame 1 for \<open>a\<close> and
  frame 2 for \<open>b\<close>.)
\<close>

theorem fac_attr_after_subset_group_ret:
  "group_ret (\<lambda>rule dl g fac. Inr (if fac = ''a'' then 1 else 2)) (\<lambda>rule t. Inr t)
      (FacNames [''b'']) None 10 two_factor_analysis
     = Inr (two_factor_analysis\<lparr>an_summary :=
              setattr (setattr (an_summary two_factor_analysis) ''symbol_group_rets''
                         (PyList [Frame 2])) ''group_rets'' (PyList [Frame 2])\<rparr>)
   \<and> fac_attr failing_engine
        (setattr (setattr (an_summary two_factor_analysis) ''symbol_group_rets''
                         (PyList [Frame 2])) ''group_rets'' (PyList [Frame 2]))
        ''group_rets'' (One (KStr ''b''))
       = Inl (ValueError ''fac: b not in result'')
   \<and> fac_attr failing_engine
        (setattr (setattr (an_summary two_factor_analysis) ''symbol_group_rets''
                         (PyList [Frame 2])) ''group_rets'' (PyList [Frame 2]))
        ''group_rets'' (One (KStr ''a''))
       = Inr (Frame 2)"
proof -
  let ?st = "setattr (setattr (an_summary two_factor_analysis) ''symbol_group_rets''
                         (PyList [Frame 2])) ''group_rets'' (PyList [Frame (2::nat)])"
  have g: "group_ret (\<lambda>rule dl g fac. Inr (if fac = ''a'' then 1 else 2)) (\<lambda>rule t. Inr t)
      (FacNames [''b'']) None 10 two_factor_analysis
     = Inr (two_factor_analysis\<lparr>an_summary := ?st\<rparr>)"
    by (simp add: group_ret_def two_factor_analysis_def)
  have v: "Summary_getattribute failing_engine ?st ''group_rets'' = Inr (PyList [Frame 2])"
    by (simp add: Summary_getattribute_def getattr_stored_def setattr_def)
  have f: "facs ?st = [''a'', ''b'']"
    by (simp add: setattr_def two_factor_analysis_def Summary_init_def)
  have b: "fac_attr failing_engine ?st ''group_rets'' (One (KStr ''b''))
             = Inl (ValueError ''fac: b not in result'')"
    by (simp add: fac_attr_def fac_attr_single_list [OF v] f str_key_def)
  have a: "fac_attr failing_engine ?st ''group_rets'' (One (KStr ''a'')) = Inr (Frame 2)"
    by (simp add: fac_attr_def fac_attr_single_list [OF v] f)
  from g b a show ?thesis by (intro conjI)
qed

text \<open>
  C8: for a name that is none of the derived metrics and no factor name,
  \<open>Summary.__getattr__\<close> returns \<open>None\<close> and does not raise; so does attribute access
  whenever ordinary lookup finds nothing under that name.
\<close>

theorem Summary_getattr_unknown:
  assumes "name \<notin> {''ic'', ''ic_std'', ''ir'', ''ic_skew'', ''ic_kurt'', ''ic_overall''}"
    and "name \<notin> set (facs st)"
  shows "Summary_getattr eng st name = Inr PyNone
     \<and> (getattr_stored st name = None \<longrightarrow> Summary_getattribute eng st name = Inr PyNone)"
  using assms by (simp add: Summary_getattr_def Summary_getattribute_def)

theorem Summary_getattr_unknown_witness:
  "''half_life'' \<notin> {''ic'', ''ic_std'', ''ir'', ''ic_skew'', ''ic_kurt'', ''ic_overall''}
   \<and> ''half_life'' \<notin> set (facs example_store)
   \<and> Summary_getattr failing_engine example_store ''half_life'' = Inr PyNone
   \<and> Summary_getattribute failing_engine example_store ''half_life'' = Inr PyNone"
proof -
  have h1: "''half_life'' \<notin> {''ic'', ''ic_std'', ''ir'', ''ic_skew'', ''ic_kurt'', ''ic_overall''}"
    by simp
  have h2: "''half_life'' \<notin> set (facs example_store)"
    by (simp add: example_store_def setattr_def Summary_init_def)
  have h3: "getattr_stored example_store ''half_life'' = None"
    by (simp add: getattr_stored_def example_store_def setattr_def Summary_init_def
        Summary_methods_def)
  from Summary_getattr_unknown [OF h1 h2, of failing_engine] h1 h2 h3 show ?thesis by simp
qed

lemma getattr_stored_setattr_same:
  "name \<noteq> ''facs'' \<Longrightarrow> name \<noteq> ''labels'' \<Longrightarrow> getattr_stored (setattr st name v) name = Some v"
  by (simp add: getattr_stored_def setattr_def)

lemma collect_results_length:
  "collect_results (map f xs) = Inr ys \<Longrightarrow> length ys = length xs"
  by (rule collect_results_nth(1))

text \<open>
  C10: a call of \<open>ts_ic\<close> that returns stores the cross-symbol series under
  \<open>ts_ic\<close>. With \<open>keep_symbol_ic = False\<close> it changes no other attribute of the
  store, so \<open>symbol_ts_ic\<close>, when it was not stored before and is no factor name,
  still resolves to \<open>None\<close>; with \<open>keep_symbol_ic = True\<close> the per-symbol frames are
  stored under \<open>symbol_ts_ic\<close>.
\<close>

theorem ts_ic_keep_symbol_ic:
  assumes "ts_ic pipeline agg_first rule method keep an = Inr an'"
  shows "(\<not> keep \<longrightarrow>
            (\<forall>a. a \<noteq> ''ts_ic'' \<longrightarrow> attrs (an_summary an') a = attrs (an_summary an) a)
          \<and> (attrs (an_summary an) ''symbol_ts_ic'' = None
               \<and> ''symbol_ts_ic'' \<notin> set (facs (an_summary an))
             \<longrightarrow> Summary_getattribute eng (an_summary an') ''symbol_ts_ic'' = Inr PyNone))
       \<and> (keep \<longrightarrow>
            (\<exists>fs. length fs = length (an_facs an)
               \<and> Summary_getattribute eng (an_summary an') ''symbol_ts_ic'' = Inr (PyList (map Frame fs))))
       \<and> (\<exists>ts. length ts = length (an_facs an)
               \<and> Summary_getattribute eng (an_summary an') ''ts_ic'' = Inr (PyList (map Frame ts)))
       \<and> facs (an_summary an') = facs (an_summary an)"
proof -
  from assms obtain sym ts where
    sym: "collect_results (map (pipeline rule method (an_dl an) (an_labels an)) (an_facs an)) = Inr sym"
    and ts: "collect_results (map agg_first sym) = Inr ts"
    and an': "an' = an\<lparr>an_summary := setattr (if keep
                    then setattr (an_summary an) ''symbol_ts_ic'' (PyList (map Frame sym))
                    else an_summary an) ''ts_ic'' (PyList (map Frame ts))\<rparr>"
    by (auto simp: ts_ic_def Let_def split: sum.splits)
  have lsym: "length sym = length (an_facs an)" using sym by (rule collect_results_length)
  have lts: "length ts = length (an_facs an)" using ts lsym by (simp add: collect_results_length)
  have a: "\<not> keep \<longrightarrow>
            (\<forall>a. a \<noteq> ''ts_ic'' \<longrightarrow> attrs (an_summary an') a = attrs (an_summary an) a)
          \<and> (attrs (an_summary an) ''symbol_ts_ic'' = None
               \<and> ''symbol_ts_ic'' \<notin> set (facs (an_summary an))
             \<longrightarrow> Summary_getattribute eng (an_summary an') ''symbol_ts_ic'' = Inr PyNone)"
    using an' by (simp add: setattr_def Summary_getattribute_def getattr_stored_def
        Summary_methods_def Summary_getattr_def)
  have b: "keep \<longrightarrow>
            (\<exists>fs. length fs = length (an_facs an)
               \<and> Summary_getattribute eng (an_summary an') ''symbol_ts_ic'' = Inr (PyList (map Frame fs)))"
  proof
    assume keep
    with an' have "Summary_getattribute eng (an_summary an') ''symbol_ts_ic'' = Inr (PyList (map Frame sym))"
      by (simp add: setattr_def Summary_getattribute_def getattr_stored_def)
    with lsym show "\<exists>fs. length fs = length (an_facs an)
               \<and> Summary_getattribute eng (an_summary an') ''symbol_ts_ic'' = Inr (PyList (map Frame fs))"
      by blast
  qed
  have "Summary_getattribute eng (an_summary an') ''ts_ic'' = Inr (PyList (map Frame ts))"
    using an' by (simp add: setattr_def Summary_getattribute_def getattr_stored_def)
  with lts have c: "\<exists>ts. length ts = length (an_facs an)
               \<and> Summary_getattribute eng (an_summary an') ''ts_ic'' = Inr (PyList (map Frame ts))"
    by blast
  have d: "facs (an_summary an') = facs (an_summary an)"
    using an' by (simp add: setattr_def)
  from a b c d show ?thesis by blast
qed

theorem ts_ic_keep_symbol_ic_witness:
  "ts_ic (\<lambda>r m dl ls f. Inr 0) (\<lambda>t. Inr (Suc t)) ''1mo'' ''pearson'' False example_analysis
     = Inr (example_analysis\<lparr>an_summary :=
              setattr (an_summary example_analysis) ''ts_ic'' (PyList [Frame 1])\<rparr>)
   \<and> Summary_getattribute failing_engine
        (an_summary (example_analysis\<lparr>an_summary :=
              setattr (an_summary example_analysis) ''ts_ic'' (PyList [Frame 1])\<rparr>))
        ''symbol_ts_ic'' = Inr PyNone"
proof -
  have h: "ts_ic (\<lambda>r m dl ls f. Inr 0) (\<lambda>t. Inr (Suc t)) ''1mo'' ''pearson'' False example_analysis
     = Inr (example_analysis\<lparr>an_summary :=
              setattr (an_summary example_analysis) ''ts_ic'' (PyList [Frame 1])\<rparr>)"
    by (simp add: ts_ic_def example_analysis_def)
  have a: "attrs (an_summary example_analysis) ''symbol_ts_ic'' = None"
    by (simp add: example_analysis_def Summary_init_def)
  have b: "''symbol_ts_ic'' \<notin> set (facs (an_summary example_analysis))"
    by (simp add: example_analysis_def Summary_init_def)
  from ts_ic_keep_symbol_ic [OF h, of failing_engine] a b h show ?thesis by simp
qed

lemma DataLoader_init_class:
  assumes "DataLoader_init is_rs_loader rs_new typ symbols = Inr ob"
  shows "obj_class ob = DataLoader"
  using assms
  by (cases "typ") (auto simp: DataLoader_init_def split: if_splits sum.splits)

lemma DataLoader_no_agg:
  assumes "obj_class ob = DataLoader"
  shows "py_getattr ob ''agg'' = Inl (AttributeError ''agg'')"
  using assms by (simp add: py_getattr_def)

lemma DataLoader_init_no_agg:
  "(\<exists>err. DataLoader_init is_rs_loader rs_new typ symbols = Inl err)
   \<or> (\<exists>ob. DataLoader_init is_rs_loader rs_new typ symbols = Inr ob
          \<and> obj_class ob = DataLoader \<and> py_getattr ob ''agg'' = Inl (AttributeError ''agg''))"
proof (cases "DataLoader_init is_rs_loader rs_new typ symbols")
  case (Inl err)
  then show ?thesis by blast
next
  case (Inr ob)
  from DataLoader_init_class [OF Inr] DataLoader_no_agg Inr show ?thesis by blast
qed

text \<open>
  C2: whatever the compiled module does, \<open>group_by_time\<close> and \<open>group_by\<close> either
  raise or return an object of class \<open>DataLoader\<close>, on which \<open>agg\<close> is an
  \<open>AttributeError\<close>; they never return the grouped view. An object made by
  \<open>DataLoaderGroupBy\<close>, as the return annotation promises, has \<open>agg\<close>.
\<close>

theorem group_by_time_returns_DataLoader:
  "((\<exists>err. group_by_time is_rs_loader rs_new rs_group_by_time self args = Inl err)
     \<or> (\<exists>ob. group_by_time is_rs_loader rs_new rs_group_by_time self args = Inr ob
            \<and> obj_class ob = DataLoader \<and> py_getattr ob ''agg'' = Inl (AttributeError ''agg'')))
   \<and> ((\<exists>err. group_by is_rs_loader rs_new rs_group_by self by maintain_order = Inl err)
     \<or> (\<exists>ob. group_by is_rs_loader rs_new rs_group_by self by maintain_order = Inr ob
            \<and> obj_class ob = DataLoader \<and> py_getattr ob ''agg'' = Inl (AttributeError ''agg'')))
   \<and> py_getattr (DataLoaderGroupBy_init g) ''agg'' = Inr ''agg''"
proof (intro conjI)
  show "(\<exists>err. group_by_time is_rs_loader rs_new rs_group_by_time self args = Inl err)
     \<or> (\<exists>ob. group_by_time is_rs_loader rs_new rs_group_by_time self args = Inr ob
            \<and> obj_class ob = DataLoader \<and> py_getattr ob ''agg'' = Inl (AttributeError ''agg''))"
  proof (cases "rs_group_by_time (obj_inner self) args")
    case (Inl err)
    then show ?thesis by (simp add: group_by_time_def)
  next
    case (Inr gb)
    with DataLoader_init_no_agg [of is_rs_loader rs_new "FromObject gb" None]
    show ?thesis by (simp add: group_by_time_def)
  qed
  show "(\<exists>err. group_by is_rs_loader rs_new rs_group_by self by maintain_order = Inl err)
     \<or> (\<exists>ob. group_by is_rs_loader rs_new rs_group_by self by maintain_order = Inr ob
            \<and> obj_class ob = DataLoader \<and> py_getattr ob ''agg'' = Inl (AttributeError ''agg''))"
  proof (cases "rs_group_by (obj_inner self) by maintain_order")
    case (Inl err)
    then show ?thesis by (simp add: group_by_def)
  next
    case (Inr gb)
    with DataLoader_init_no_agg [of is_rs_loader rs_new "FromObject gb" None]
    show ?thesis by (simp add: group_by_def)
  qed
  show "py_getattr (DataLoaderGroupBy_init g) ''agg'' = Inr ''agg''"
    by (simp add: py_getattr_def DataLoaderGroupBy_init_def)
qed

















lemma py_index_map: "py_index (map f c) i = (case py_index c i of Inl err \<Rightarrow> Inl err | Inr x \<Rightarrow> Inr (f x))"
  by (auto simp: py_index_def)








lemma Analysis_init_labels:
  assumes "Analysis_init wz dfs fs base lp dp = Inr an"
  shows "an_labels an = map label_name (an_label_periods an)"
  using assms by (auto simp: Analysis_init_def Let_def split: sum.splits)


lemma label_names_1_2: "label_name 1 = ''label_1''" "label_name 2 = ''label_2''"
  by (simp_all add: label_name_def str_nat.simps)



lemma select_ic_Inr:
  assumes "select_ic corr height method fac lbls fr = Inr (row, cnt)"
  shows "cnt = height fr" and "map fst row = lbls"
    and "j < length lbls \<Longrightarrow> \<exists>c. corr method fac (lbls ! j) fr = Inr c \<and> row ! j = (lbls ! j, stable_corr c)"
proof -
  let ?f = "\<lambda>l. case corr method fac l fr of Inl err \<Rightarrow> Inl err | Inr c \<Rightarrow> Inr (l, stable_corr c)"
  from assms have c: "collect_results (map ?f lbls) = Inr row" and h: "cnt = height fr"
    by (auto simp: select_ic_def split: sum.splits)
  from h show "cnt = height fr" .
  have el: "\<exists>c. corr method fac (lbls ! j) fr = Inr c \<and> row ! j = (lbls ! j, stable_corr c)"
    if "j < length lbls" for j
    using collect_results_nth(2) [OF c that] by (auto split: sum.splits)
  show "map fst row = lbls"
  proof (rule nth_equalityI)
    show "length (map fst row) = length lbls" using collect_results_nth(1) [OF c] by simp
    fix j assume "j < length (map fst row)"
    then have j: "j < length lbls" using collect_results_nth(1) [OF c] by simp
    from el [OF j] j collect_results_nth(1) [OF c] show "map fst row ! j = lbls ! j" by auto
  qed
  assume "j < length lbls"
  then show "\<exists>c. corr method fac (lbls ! j) fr = Inr c \<and> row ! j = (lbls ! j, stable_corr c)"
    by (rule el)
qed

lemma weighted_mean_numbers:
  assumes "\<forall>(w, c) \<in> set wcs. \<exists>x. c = Some (Fin x)" and "0 < sum_list (map fst wcs)"
  shows "weighted_mean wcs
           = Some (Fin ((\<Sum>(w, c)\<leftarrow>wcs. real w * number_of c) / real (sum_list (map fst wcs))))"
proof -
  from assms(1) have "list_all (\<lambda>(w, c). is_number c) wcs"
    by (auto simp: list_all_iff)
  with assms(2) show ?thesis by (simp add: weighted_mean_def)
qed

lemma agg_dfs_weighted_lookup:
  assumes "l \<in> set lbls"
  shows "map_of (agg_dfs_weighted lbls ic) l
           = Some (weighted_mean (map (\<lambda>(row, cnt). (cnt, cell_value row l)) ic))"
proof -
  have "map_of (map (\<lambda>l. (l, weighted_mean (map (\<lambda>(row, cnt). (cnt, cell_value row l)) ic))) lbls) l
      = Some (weighted_mean (map (\<lambda>(row, cnt). (cnt, cell_value row l)) ic))"
    using assms by (induction lbls) auto
  then show ?thesis by (simp add: agg_dfs_weighted_def)
qed

lemma weights_sum:
  "sum_list (map fst (map (\<lambda>(row, cnt). (cnt, cell_value row l)) ic)) = (\<Sum>(row, cnt)\<leftarrow>ic. cnt)"
  by (induction ic) (auto simp: case_prod_unfold)

lemma weighted_values_sum:
  "(\<Sum>(w, c)\<leftarrow>map (\<lambda>(row, cnt). (cnt, cell_value row l)) ic. real w * number_of c)
     = (\<Sum>(row, cnt)\<leftarrow>ic. real cnt * number_of (cell_value row l))"
  by (induction ic) (auto simp: case_prod_unfold)

text \<open>
  C5: a call of \<open>ic_overall\<close> that returns stores, for every factor, the per-symbol
  IC rows under \<open>symbol_ic\<close> and, apart from them, their aggregate under
  \<open>_ic_overall\<close>, and changes no other attribute. Every per-symbol row carries
  the row count of its symbol's frame as weight. For every factor and label the
  stored aggregate is the count-weighted mean of the per-symbol values; where these
  are all numbers, with counts that do not sum to 0, it is the sum of count times
  value divided by the sum of the counts.
\<close>

theorem ic_overall_weighted_mean:
  assumes "ic_overall corr height method an = Inr an'"
  shows "\<exists>ics.
      collect_results
        (map (\<lambda>fac. collect_results
                       (map (select_ic corr height method fac (an_labels an)) (an_dl an)))
             (an_facs an)) = Inr ics
    \<and> length ics = length (an_facs an)
    \<and> attrs (an_summary an') ''symbol_ic''
         = Some (PyList (map (\<lambda>ic. Frame (PerSymbol (map fst ic))) ics))
    \<and> attrs (an_summary an') ''_ic_overall''
         = Some (PyList (map (\<lambda>ic. Frame (Overall (agg_dfs_weighted (an_labels an) ic))) ics))
    \<and> (\<forall>a. a \<noteq> ''symbol_ic'' \<and> a \<noteq> ''_ic_overall''
           \<longrightarrow> attrs (an_summary an') a = attrs (an_summary an) a)
    \<and> (\<forall>i < length ics. length (ics ! i) = length (an_dl an)
           \<and> (\<forall>s < length (an_dl an). snd (ics ! i ! s) = height (an_dl an ! s)))
    \<and> (\<forall>i < length ics. \<forall>l \<in> set (an_labels an).
           map_of (agg_dfs_weighted (an_labels an) (ics ! i)) l
             = Some (weighted_mean (map (\<lambda>(row, cnt). (cnt, cell_value row l)) (ics ! i))))
    \<and> (\<forall>i < length ics. \<forall>l \<in> set (an_labels an).
           (\<forall>(row, cnt) \<in> set (ics ! i). \<exists>x. cell_value row l = Some (Fin x))
           \<and> 0 < (\<Sum>(row, cnt)\<leftarrow>ics ! i. cnt)
           \<longrightarrow> map_of (agg_dfs_weighted (an_labels an) (ics ! i)) l
                 = Some (Some (Fin ((\<Sum>(row, cnt)\<leftarrow>ics ! i. real cnt * number_of (cell_value row l))
                                    / real (\<Sum>(row, cnt)\<leftarrow>ics ! i. cnt)))))"
proof -
  let ?sel = "\<lambda>fac. collect_results
                       (map (select_ic corr height method fac (an_labels an)) (an_dl an))"
  from assms obtain ics where
    ics: "collect_results (map ?sel (an_facs an)) = Inr ics"
    and an': "an' = an\<lparr>an_summary :=
               setattr (setattr (an_summary an) ''symbol_ic''
                          (PyList (map (\<lambda>ic. Frame (PerSymbol (map fst ic))) ics)))
                 ''_ic_overall''
                 (PyList (map (\<lambda>ic. Frame (Overall (agg_dfs_weighted (an_labels an) ic))) ics))\<rparr>"
    by (auto simp: ic_overall_def Let_def split: sum.splits)
  have len: "length ics = length (an_facs an)"
    using collect_results_nth(1) [OF ics] .
  have a: "attrs (an_summary an') ''symbol_ic''
         = Some (PyList (map (\<lambda>ic. Frame (PerSymbol (map fst ic))) ics))"
    using an' by (simp add: setattr_def)
  have b: "attrs (an_summary an') ''_ic_overall''
         = Some (PyList (map (\<lambda>ic. Frame (Overall (agg_dfs_weighted (an_labels an) ic))) ics))"
    using an' by (simp add: setattr_def)
  have c: "\<forall>a. a \<noteq> ''symbol_ic'' \<and> a \<noteq> ''_ic_overall''
           \<longrightarrow> attrs (an_summary an') a = attrs (an_summary an) a"
    using an' by (simp add: setattr_def)
  have d: "\<forall>i < length ics. length (ics ! i) = length (an_dl an)
           \<and> (\<forall>s < length (an_dl an). snd (ics ! i ! s) = height (an_dl an ! s))"
  proof (intro allI impI)
    fix i assume "i < length ics"
    then have i: "i < length (an_facs an)" using len by simp
    from collect_results_nth(2) [OF ics i]
    have r: "collect_results
               (map (select_ic corr height method (an_facs an ! i) (an_labels an)) (an_dl an))
             = Inr (ics ! i)" .
    have l: "length (ics ! i) = length (an_dl an)" using collect_results_nth(1) [OF r] .
    have "\<forall>s < length (an_dl an). snd (ics ! i ! s) = height (an_dl an ! s)"
    proof (intro allI impI)
      fix s assume "s < length (an_dl an)"
      from collect_results_nth(2) [OF r this]
      have "select_ic corr height method (an_facs an ! i) (an_labels an) (an_dl an ! s)
              = Inr (fst (ics ! i ! s), snd (ics ! i ! s))" by simp
      from select_ic_Inr(1) [OF this] show "snd (ics ! i ! s) = height (an_dl an ! s)" .
    qed
    with l show "length (ics ! i) = length (an_dl an)
           \<and> (\<forall>s < length (an_dl an). snd (ics ! i ! s) = height (an_dl an ! s))" by simp
  qed
  have e: "\<forall>i < length ics. \<forall>l \<in> set (an_labels an).
           (\<forall>(row, cnt) \<in> set (ics ! i). \<exists>x. cell_value row l = Some (Fin x))
           \<and> 0 < (\<Sum>(row, cnt)\<leftarrow>ics ! i. cnt)
           \<longrightarrow> map_of (agg_dfs_weighted (an_labels an) (ics ! i)) l
                 = Some (Some (Fin ((\<Sum>(row, cnt)\<leftarrow>ics ! i. real cnt * number_of (cell_value row l))
                                    / real (\<Sum>(row, cnt)\<leftarrow>ics ! i. cnt))))"
  proof (intro allI impI ballI)
    fix i l
    assume l: "l \<in> set (an_labels an)"
      and h: "(\<forall>(row, cnt) \<in> set (ics ! i). \<exists>x. cell_value row l = Some (Fin x))
           \<and> 0 < (\<Sum>(row, cnt)\<leftarrow>ics ! i. cnt)"
    let ?wcs = "map (\<lambda>(row, cnt). (cnt, cell_value row l)) (ics ! i)"
    from h have n: "\<forall>(w, c) \<in> set ?wcs. \<exists>x. c = Some (Fin x)" by auto
    from h have p: "0 < sum_list (map fst ?wcs)" by (simp only: weights_sum)
    from weighted_mean_numbers [OF n p]
    have "weighted_mean ?wcs
        = Some (Fin ((\<Sum>(row, cnt)\<leftarrow>ics ! i. real cnt * number_of (cell_value row l))
                       / real (\<Sum>(row, cnt)\<leftarrow>ics ! i. cnt)))"
      unfolding weights_sum weighted_values_sum .
    with agg_dfs_weighted_lookup [OF l, of "ics ! i"]
    show "map_of (agg_dfs_weighted (an_labels an) (ics ! i)) l
                 = Some (Some (Fin ((\<Sum>(row, cnt)\<leftarrow>ics ! i. real cnt * number_of (cell_value row l))
                                    / real (\<Sum>(row, cnt)\<leftarrow>ics ! i. cnt))))"
      by simp
  qed
  have u: "\<forall>i < length ics. \<forall>l \<in> set (an_labels an).
           map_of (agg_dfs_weighted (an_labels an) (ics ! i)) l
             = Some (weighted_mean (map (\<lambda>(row, cnt). (cnt, cell_value row l)) (ics ! i)))"
    using agg_dfs_weighted_lookup by blast
  from ics len a b c d u e show ?thesis by blast
qed

lemma ic_example_run:
  "ic_overall (\<lambda>m f l fr. Inr (Some (Fin (if fr ''a'' = None then 0.2 else 0))))
      (\<lambda>fr. if fr ''a'' = None then 3 else 1) ''pearson'' ic_example
   = Inr (ic_example\<lparr>an_summary :=
       setattr (setattr (an_summary ic_example) ''symbol_ic''
                  (PyList [Frame (PerSymbol [[(''label_1'', Some (Fin 0))],
                                             [(''label_1'', Some (Fin 0.2))]])]))
         ''_ic_overall'' (PyList [Frame (Overall [(''label_1'', Some (Fin 0.15))])])\<rparr>)"
  by (simp add: ic_overall_def ic_example_def select_ic_def stable_corr_def clip_def
      fill_nan_None_def agg_dfs_weighted_def weighted_mean_def cell_value_def)


theorem ic_overall_weighted_mean_witness:
  "ic_overall (\<lambda>m f l fr. Inr (Some (Fin (if fr ''a'' = None then 0.2 else 0))))
      (\<lambda>fr. if fr ''a'' = None then 3 else 1) ''pearson'' ic_example
   = Inr (ic_example\<lparr>an_summary :=
       setattr (setattr (an_summary ic_example) ''symbol_ic''
                  (PyList [Frame (PerSymbol [[(''label_1'', Some (Fin 0))],
                                             [(''label_1'', Some (Fin 0.2))]])]))
         ''_ic_overall'' (PyList [Frame (Overall [(''label_1'', Some (Fin 0.15))])])\<rparr>)"
proof -
  from ic_overall_weighted_mean [OF ic_example_run]
  have "\<exists>ics :: (ic_row \<times> nat) list list. length ics = length (an_facs ic_example)" by blast
  then show ?thesis using ic_example_run by blast
qed

text \<open>
  The labels of an analysis object are those of its label periods from \<open>__init__\<close>
  on: the methods write to the result store only.
\<close>

lemma ts_ic_fields:
  assumes "ts_ic pipeline agg_first rule method keep an = Inr an1"
  shows "an_labels an1 = an_labels an" and "an_label_periods an1 = an_label_periods an"
  using assms by (auto simp: ts_ic_def Let_def split: sum.splits)

lemma group_ret_fields:
  assumes "group_ret pipeline aggregate fs rule ngroup an = Inr an1"
  shows "an_labels an1 = an_labels an" and "an_label_periods an1 = an_label_periods an"
  using assms by (auto simp: group_ret_def Let_def split: sum.splits)

lemma ic_overall_fields:
  assumes "ic_overall corr height method an = Inr an1"
  shows "an_labels an1 = an_labels an" and "an_label_periods an1 = an_label_periods an"
  using assms by (auto simp: ic_overall_def Let_def split: sum.splits)

end
